theory Spec2Isabelle
  imports Main
begin

section \<open>JavaScript values\<close>

text \<open>
  The framework is plain JavaScript. Strings are modelled as \<open>string\<close> (a list of
  code units below 256), numbers by the decimal value they denote (mantissa and
  power of ten; rounding to a double is not modelled), objects by the list of their own
  enumerable properties in enumeration order. Every object literal of the source
  inherits from \<open>Object.prototype\<close>, so a property read with a computed key that
  misses the own properties finds the members of that prototype.
  Output on the console is not part of the model.
\<close>

datatype jsnum = NaN | PosInf | NegInf | Dec int int

datatype jsval =
    JUndefined
  | JNull
  | JBool bool
  | JNum jsnum
  | JStr string
  | JArr "jsval list"
  | JObj "(string \<times> jsval) list"

type_synonym jsobj = "(string \<times> jsval) list"

text \<open>
  What a call can throw: a TypeError, or the RangeError of an exhausted call stack.
  \<open>Unsupported\<close> is not an error of JavaScript: it ends the one kind of run that needs
  a value these types do not have (see \<open>inject_link\<close>).
\<close>

datatype error = TypeError | RangeError | Unsupported

text \<open>The property names every plain object inherits from \<open>Object.prototype\<close>.\<close>

definition object_prototype_keys :: "string list" where
  "object_prototype_keys =
     [''constructor'', ''__defineGetter__'', ''__defineSetter__'', ''hasOwnProperty'',
      ''__lookupGetter__'', ''__lookupSetter__'', ''isPrototypeOf'',
      ''propertyIsEnumerable'', ''toString'', ''valueOf'', ''__proto__'',
      ''toLocaleString'']"

text \<open>
  \<open>obj[key]\<close> on a plain object: an own property, else a member inherited from the
  prototype (a function, or the prototype itself for \<open>__proto__\<close>: never undefined, never
  a string or a number, truthy, without an \<open>includes\<close> method), else nothing.
\<close>

datatype 'a property = Own 'a | Inherited | Absent

definition js_get :: "(string \<times> 'a) list \<Rightarrow> string \<Rightarrow> 'a property" where
  "js_get obj key =
     (case map_of obj key of
        Some v \<Rightarrow> Own v
      | None \<Rightarrow> if key \<in> set object_prototype_keys then Inherited else Absent)"

definition digit_char :: "nat \<Rightarrow> char" where
  "digit_char d = ''0123456789abcdefghijklmnopqrstuvwxyz'' ! (d mod 36)"

function digits :: "nat \<Rightarrow> string" where
  "digits n = (if n < 10 then [digit_char n] else digits (n div 10) @ [digit_char (n mod 10)])"
  by pat_completeness auto
termination
  by (relation "measure id") auto

declare digits.simps [simp del]

text \<open>
  \<open>Number.prototype.toString()\<close> in radix 10, as ECMAScript defines it from the
  shortest digit string \<open>s\<close> of length \<open>k\<close> and the position \<open>n\<close> of the decimal point.
\<close>

definition dec_toString :: "nat \<Rightarrow> int \<Rightarrow> string" where
  "dec_toString m e =
     (let ds = digits m;
          s = rev (dropWhile (\<lambda>c. c = CHR ''0'') (rev ds));
          k = int (length s);
          n = int (length ds) + e
      in if k \<le> n \<and> n \<le> 21 then s @ replicate (nat (n - k)) (CHR ''0'')
         else if 0 < n \<and> n \<le> 21 then take (nat n) s @ ''.'' @ drop (nat n) s
         else if - 6 < n \<and> n \<le> 0 then ''0.'' @ replicate (nat (- n)) (CHR ''0'') @ s
         else (let ex = (if 0 < n - 1 then ''+'' else ''-'') @ digits (nat \<bar>n - 1\<bar>)
               in if k = 1 then s @ ''e'' @ ex
                  else take 1 s @ ''.'' @ drop 1 s @ ''e'' @ ex))"

definition num_toString :: "jsnum \<Rightarrow> string" where
  "num_toString x =
     (case x of
        NaN \<Rightarrow> ''NaN''
      | PosInf \<Rightarrow> ''Infinity''
      | NegInf \<Rightarrow> ''-Infinity''
      | Dec m e \<Rightarrow>
          if m = 0 then ''0''
          else (if m < 0 then ''-'' else []) @ dec_toString (nat \<bar>m\<bar>) e)"

section \<open>Target.escapeHTML\<close>

definition is_alpha :: "char \<Rightarrow> bool" where
  "is_alpha c =
     (let n = (of_char c :: nat) in (97 \<le> n \<and> n \<le> 122) \<or> (65 \<le> n \<and> n \<le> 90))"

text \<open>The replacement table of the full escape, \<open>/[&<>"']/g\<close>.\<close>

definition entity :: "char \<Rightarrow> string" where
  "entity c =
     (if c = CHR ''&'' then ''&amp;''
      else if c = CHR ''<'' then ''&lt;''
      else if c = CHR ''>'' then ''&gt;''
      else if c = CHR 0x22 then ''&quot;''
      else if c = CHR 0x27 then ''&#39;''
      else [c])"

definition escape_all :: "string \<Rightarrow> string" where
  "escape_all s = concat (map entity s)"

definition allowedTags :: "(string \<times> string list) list" where
  "allowedTags =
     [(''b'', []), (''i'', []), (''u'', []), (''s'', []), (''a'', [''href'', ''title'']),
      (''code'', []), (''pre'', []), (''blockquote'', []), (''ul'', []), (''ol'', []),
      (''li'', []), (''h1'', []), (''h2'', []), (''h3'', []), (''h4'', []), (''h5'', []),
      (''h6'', []), (''p'', []), (''br'', []), (''hr'', []), (''table'', []),
      (''thead'', []), (''tbody'', []), (''tfoot'', []), (''tr'', []), (''th'', []),
      (''td'', []), (''div'', []), (''span'', [])]"


text \<open>
  One match of \<open>/<\/?([a-zA-Z]+)([^>]*)>/\<close> at the start of the string: whether the
  tag starts with \<open></\<close>, the tag name, the attribute text and the rest after \<open>>\<close>.
\<close>

definition tag_match :: "string \<Rightarrow> (bool \<times> string \<times> string \<times> string) option" where
  "tag_match s =
     (case s of
        [] \<Rightarrow> None
      | c # s1 \<Rightarrow>
          if c \<noteq> CHR ''<'' then None
          else
            (let closing = (s1 \<noteq> [] \<and> hd s1 = CHR ''/'');
                 s2 = (if closing then tl s1 else s1);
                 tagName = takeWhile is_alpha s2;
                 s3 = dropWhile is_alpha s2;
                 attrs = takeWhile (\<lambda>x. x \<noteq> CHR ''>'') s3;
                 s4 = dropWhile (\<lambda>x. x \<noteq> CHR ''>'') s3
             in if tagName = [] \<or> s4 = [] then None
                else Some (closing, tagName, attrs, tl s4)))"

text \<open>One match of \<open>/([a-zA-Z]+)="([^"]*)"/\<close> at the start of the string.\<close>

definition attr_match :: "string \<Rightarrow> (string \<times> string \<times> string) option" where
  "attr_match s =
     (let attrName = takeWhile is_alpha s;
          s1 = dropWhile is_alpha s
      in if attrName = [] \<or> take 2 s1 \<noteq> [CHR ''='', CHR 0x22] then None
         else
           (let attrValue = takeWhile (\<lambda>x. x \<noteq> CHR 0x22) (drop 2 s1);
                s2 = dropWhile (\<lambda>x. x \<noteq> CHR 0x22) (drop 2 s1)
            in if s2 = [] then None else Some (attrName, attrValue, tl s2)))"

lemma length_dropWhile_le_aux: "length (dropWhile P xs) \<le> length xs"
  by (induction xs) auto

lemma attr_match_shorter:
  "attr_match s = Some (n, v, r) \<Longrightarrow> length r < length s"
proof -
  assume a: "attr_match s = Some (n, v, r)"
  let ?s1 = "dropWhile is_alpha s"
  let ?s2 = "dropWhile (\<lambda>x. x \<noteq> CHR 0x22) (drop 2 ?s1)"
  from a have s2: "?s2 \<noteq> []" and r: "r = tl ?s2"
    by (auto simp: attr_match_def Let_def split: if_splits)
  have "length ?s2 \<le> length (drop 2 ?s1)" by (rule length_dropWhile_le_aux)
  also have "\<dots> \<le> length ?s1" by simp
  also have "\<dots> \<le> length s" by (rule length_dropWhile_le_aux)
  finally have "length ?s2 \<le> length s" .
  moreover from s2 have "length (tl ?s2) < length ?s2" by (cases ?s2) auto
  ultimately show ?thesis using r by simp
qed

text \<open>The \<open>while ((match = attrRegex.exec(attrs)) !== null)\<close> loop: every match, left to right.\<close>

function attr_scan :: "string \<Rightarrow> (string \<times> string) list" where
  "attr_scan [] = []"
| "attr_scan (c # cs) =
     (case attr_match (c # cs) of
        Some (n, v, r) \<Rightarrow> (n, v) # attr_scan r
      | None \<Rightarrow> attr_scan cs)"
  by pat_completeness auto
termination
  by (relation "measure length") (auto dest: attr_match_shorter)

text \<open>
  The loop body: \<open>allowedTags[tagName].includes(attrName)\<close> is a TypeError when the
  entry is an inherited member (it has no \<open>includes\<close>), at the first attribute met.
\<close>

fun safe_attrs :: "string list property \<Rightarrow> (string \<times> string) list \<Rightarrow> error + string" where
  "safe_attrs entry [] = Inr []"
| "safe_attrs (Own allowed) ((attrName, attrValue) # rest) =
     (case safe_attrs (Own allowed) rest of
        Inl e \<Rightarrow> Inl e
      | Inr more \<Rightarrow>
          Inr ((if attrName \<in> set allowed
                then '' '' @ attrName @ [CHR ''='', CHR 0x22] @ escape_all attrValue @ [CHR 0x22]
                else []) @ more))"
| "safe_attrs entry (a # rest) = Inl TypeError"

text \<open>The callback of \<open>str.replace(tagRegex, ...)\<close> for one matched tag.\<close>

definition rewrite_tag :: "bool \<Rightarrow> string \<Rightarrow> string \<Rightarrow> error + string" where
  "rewrite_tag closing tagName attrs =
     (case js_get allowedTags tagName of
        Absent \<Rightarrow>
          Inr (''&lt;'' @ (if closing then ''/'' else []) @ tagName
               @ concat (map (\<lambda>c. if c = CHR ''<'' then ''&lt;'' else [c]) attrs) @ ''&gt;'')
      | entry \<Rightarrow>
          (case safe_attrs entry (attr_scan attrs) of
             Inl e \<Rightarrow> Inl e
           | Inr safeAttrs \<Rightarrow>
               Inr (''<'' @ (if closing then ''/'' else []) @ tagName @ safeAttrs @ ''>'')))"

lemma tag_match_shorter:
  "tag_match s = Some (cl, n, a, r) \<Longrightarrow> length r < length s"
proof -
  assume a: "tag_match s = Some (cl, n, a, r)"
  then obtain c s1 where s: "s = c # s1" by (cases s) (auto simp: tag_match_def)
  let ?s2 = "if s1 \<noteq> [] \<and> hd s1 = CHR ''/'' then tl s1 else s1"
  let ?s4 = "dropWhile (\<lambda>x. x \<noteq> CHR ''>'') (dropWhile is_alpha ?s2)"
  from a s have s4: "?s4 \<noteq> []" and r: "r = tl ?s4"
    by (auto simp: tag_match_def Let_def split: if_splits)
  have "length ?s4 \<le> length (dropWhile is_alpha ?s2)" by (rule length_dropWhile_le_aux)
  also have "\<dots> \<le> length ?s2" by (rule length_dropWhile_le_aux)
  also have "\<dots> \<le> length s1" by simp
  finally have "length ?s4 \<le> length s1" .
  moreover from s4 have "length (tl ?s4) < length ?s4" by (cases ?s4) auto
  ultimately show ?thesis using r s by simp
qed

text \<open>\<open>str.replace(tagRegex, callback)\<close>: text between matches is copied.\<close>

function escape_tags :: "string \<Rightarrow> error + string" where
  "escape_tags [] = Inr []"
| "escape_tags (c # cs) =
     (case tag_match (c # cs) of
        None \<Rightarrow> (case escape_tags cs of Inl e \<Rightarrow> Inl e | Inr out \<Rightarrow> Inr (c # out))
      | Some (closing, tagName, attrs, rest) \<Rightarrow>
          (case rewrite_tag closing tagName attrs of
             Inl e \<Rightarrow> Inl e
           | Inr tag \<Rightarrow>
               (case escape_tags rest of Inl e \<Rightarrow> Inl e | Inr out \<Rightarrow> Inr (tag @ out))))"
  by pat_completeness auto
termination
  by (relation "measure length") (auto dest: tag_match_shorter)

text \<open>
  The argument is a value read from an object, so it may be an inherited member; that
  and every other value that is neither a number nor a string gives the empty string.
\<close>

definition escapeHTML :: "jsval property \<Rightarrow> bool \<Rightarrow> error + string" where
  "escapeHTML str allowTags =
     (let str' = (case str of Own (JNum x) \<Rightarrow> Own (JStr (num_toString x)) | v \<Rightarrow> v)
      in case str' of
           Own (JStr s) \<Rightarrow> if allowTags then escape_tags s else Inr (escape_all s)
         | other \<Rightarrow> Inr [])"

section \<open>Target.parseHTML\<close>

definition is_word :: "char \<Rightarrow> bool" where
  "is_word c =
     (let n = (of_char c :: nat)
      in (97 \<le> n \<and> n \<le> 122) \<or> (65 \<le> n \<and> n \<le> 90) \<or> (48 \<le> n \<and> n \<le> 57) \<or> n = 95)"

text \<open>
  One match of \<open>/\{\{(\w+)\}\}/\<close> at the start of the string: the key and the rest
  after the closing braces.
\<close>

definition token_match :: "string \<Rightarrow> (string \<times> string) option" where
  "token_match s =
     (if take 2 s \<noteq> ''{{'' then None
      else
        (let key = takeWhile is_word (drop 2 s);
             s1 = dropWhile is_word (drop 2 s)
         in if key = [] \<or> take 2 s1 \<noteq> ''}}'' then None else Some (key, drop 2 s1)))"

text \<open>The callback of \<open>template.replace\<close>; \<open>match\<close> is the token itself.\<close>

definition substitute :: "jsobj \<Rightarrow> string \<Rightarrow> error + string" where
  "substitute placeholders key =
     (if js_get placeholders key \<noteq> Absent \<and> js_get placeholders key \<noteq> Own JUndefined then
        (if key = ''content'' then escapeHTML (js_get placeholders key) True
         else escapeHTML (js_get placeholders key) False)
      else Inr (''{{'' @ key @ ''}}''))"

lemma token_match_shorter:
  "token_match s = Some (k, r) \<Longrightarrow> length r < length s"
proof -
  assume a: "token_match s = Some (k, r)"
  let ?s1 = "dropWhile is_word (drop 2 s)"
  from a have t: "take 2 s = ''{{''" and r: "r = drop 2 ?s1"
    by (auto simp: token_match_def Let_def split: if_splits)
  from t have "2 \<le> length s" by (cases s; cases "tl s") auto
  moreover have "length ?s1 \<le> length (drop 2 s)" by (rule length_dropWhile_le_aux)
  ultimately show ?thesis using r by simp
qed

function replace_tokens :: "jsobj \<Rightarrow> string \<Rightarrow> error + string" where
  "replace_tokens placeholders [] = Inr []"
| "replace_tokens placeholders (c # cs) =
     (case token_match (c # cs) of
        None \<Rightarrow>
          (case replace_tokens placeholders cs of Inl e \<Rightarrow> Inl e | Inr out \<Rightarrow> Inr (c # out))
      | Some (key, rest) \<Rightarrow>
          (case substitute placeholders key of
             Inl e \<Rightarrow> Inl e
           | Inr v \<Rightarrow>
               (case replace_tokens placeholders rest of
                  Inl e \<Rightarrow> Inl e
                | Inr out \<Rightarrow> Inr (v @ out))))"
  by pat_completeness auto
termination
  by (relation "measure (\<lambda>(p, s). length s)") (auto dest: token_match_shorter)

text \<open>\<open>template.replace\<close> is a TypeError unless the template is a string.\<close>

definition parseHTML :: "jsval \<Rightarrow> jsobj \<Rightarrow> error + string" where
  "parseHTML template placeholders =
     (case template of
        JStr t \<Rightarrow> replace_tokens placeholders t
      | other \<Rightarrow> Inl TypeError)"

section \<open>Conversions of JavaScript values\<close>

text \<open>White space as \<open>\s\<close>, \<open>trim\<close> and the number grammar read it (code units below 256).\<close>

definition is_space :: "char \<Rightarrow> bool" where
  "is_space c = ((of_char c :: nat) \<in> set [9, 10, 11, 12, 13, 32, 160])"

definition is_digit :: "char \<Rightarrow> bool" where
  "is_digit c = (let n = (of_char c :: nat) in 48 \<le> n \<and> n \<le> 57)"

definition trim :: "string \<Rightarrow> string" where
  "trim s = rev (dropWhile is_space (rev (dropWhile is_space s)))"

definition digit_val :: "char \<Rightarrow> nat" where
  "digit_val c =
     (let n = (of_char c :: nat)
      in if 48 \<le> n \<and> n \<le> 57 then n - 48
         else if 97 \<le> n \<and> n \<le> 102 then n - 87
         else n - 55)"

definition is_radix_digit :: "nat \<Rightarrow> char \<Rightarrow> bool" where
  "is_radix_digit b c =
     (let n = (of_char c :: nat)
      in ((48 \<le> n \<and> n \<le> 57) \<or> (97 \<le> n \<and> n \<le> 102) \<or> (65 \<le> n \<and> n \<le> 70))
         \<and> digit_val c < b)"

definition radix_val :: "nat \<Rightarrow> string \<Rightarrow> nat" where
  "radix_val b ds = foldl (\<lambda>a c. a * b + digit_val c) 0 ds"

text \<open>
  The number \<open>m * 10 ^ e\<close> in a normal form: an integer has exponent 0, a fraction has no
  trailing zero in its mantissa.
\<close>

fun shrink :: "nat \<Rightarrow> int \<Rightarrow> int \<Rightarrow> jsnum" where
  "shrink 0 m e = Dec m e"
| "shrink (Suc k) m e = (if m mod 10 = 0 then shrink k (m div 10) (e + 1) else Dec m e)"

definition mk_num :: "int \<Rightarrow> int \<Rightarrow> jsnum" where
  "mk_num m e =
     (if m = 0 then Dec 0 0
      else if 0 \<le> e then Dec (m * 10 ^ nat e) 0
      else shrink (nat (- e)) m e)"

definition negate :: "jsnum \<Rightarrow> jsnum" where
  "negate x =
     (case x of NaN \<Rightarrow> NaN | PosInf \<Rightarrow> NegInf | NegInf \<Rightarrow> PosInf | Dec m e \<Rightarrow> Dec (- m) e)"

text \<open>The grammar of ECMAScript's StringToNumber, which \<open>isNaN\<close> and \<open>Number\<close> apply to a string.\<close>

definition exponent_part :: "string \<Rightarrow> int option" where
  "exponent_part r =
     (if r = [] then Some 0
      else if hd r \<noteq> CHR ''e'' \<and> hd r \<noteq> CHR ''E'' then None
      else
        (let r1 = tl r;
             signed = (r1 \<noteq> [] \<and> (hd r1 = CHR ''+'' \<or> hd r1 = CHR ''-''));
             r2 = (if signed then tl r1 else r1)
         in if r2 = [] \<or> \<not> list_all is_digit r2 then None
            else Some ((if signed \<and> hd r1 = CHR ''-'' then - 1 else 1) * int (radix_val 10 r2))))"

definition unsigned_decimal :: "string \<Rightarrow> jsnum" where
  "unsigned_decimal s =
     (if s = ''Infinity'' then PosInf
      else
        (let ip = takeWhile is_digit s;
             r1 = dropWhile is_digit s;
             dot = (r1 \<noteq> [] \<and> hd r1 = CHR ''.'');
             fp = (if dot then takeWhile is_digit (tl r1) else []);
             r2 = (if dot then dropWhile is_digit (tl r1) else r1)
         in if ip = [] \<and> fp = [] then NaN
            else (case exponent_part r2 of
                    None \<Rightarrow> NaN
                  | Some ex \<Rightarrow> mk_num (int (radix_val 10 (ip @ fp))) (ex - int (length fp)))))"

definition radix_literal :: "nat \<Rightarrow> string \<Rightarrow> jsnum" where
  "radix_literal b ds =
     (if ds \<noteq> [] \<and> list_all (is_radix_digit b) ds then Dec (int (radix_val b ds)) 0 else NaN)"

definition StringToNumber :: "string \<Rightarrow> jsnum" where
  "StringToNumber str =
     (let s = trim str
      in if s = [] then Dec 0 0
         else if take 2 s = ''0x'' \<or> take 2 s = ''0X'' then radix_literal 16 (drop 2 s)
         else if take 2 s = ''0o'' \<or> take 2 s = ''0O'' then radix_literal 8 (drop 2 s)
         else if take 2 s = ''0b'' \<or> take 2 s = ''0B'' then radix_literal 2 (drop 2 s)
         else if hd s = CHR ''+'' then unsigned_decimal (tl s)
         else if hd s = CHR ''-'' then negate (unsigned_decimal (tl s))
         else unsigned_decimal s)"

definition truthy :: "jsval \<Rightarrow> bool" where
  "truthy v =
     (case v of
        JUndefined \<Rightarrow> False
      | JNull \<Rightarrow> False
      | JBool b \<Rightarrow> b
      | JNum NaN \<Rightarrow> False
      | JNum (Dec m e) \<Rightarrow> m \<noteq> 0
      | JNum x \<Rightarrow> True
      | JStr s \<Rightarrow> s \<noteq> []
      | JArr xs \<Rightarrow> True
      | JObj kvs \<Rightarrow> True)"

definition join :: "string \<Rightarrow> string list \<Rightarrow> string" where
  "join sep xs = (case xs of [] \<Rightarrow> [] | x # rest \<Rightarrow> x @ concat (map (\<lambda>y. sep @ y) rest))"

text \<open>
  ToString. The values of the model hold no functions, so an object with an own
  \<open>toString\<close> property has no usable conversion left (\<open>None\<close>: a TypeError); any other
  object prints as \<open>[object Object]\<close>, an array joins its elements with commas.
\<close>

fun to_string :: "jsval \<Rightarrow> string option" where
  "to_string JUndefined = Some ''undefined''"
| "to_string JNull = Some ''null''"
| "to_string (JBool b) = Some (if b then ''true'' else ''false'')"
| "to_string (JNum x) = Some (num_toString x)"
| "to_string (JStr s) = Some s"
| "to_string (JArr xs) =
     map_option (join '','')
       (those (map (\<lambda>x. if x = JUndefined \<or> x = JNull then Some [] else to_string x) xs))"
| "to_string (JObj kvs) =
     (if ''toString'' \<in> set (map fst kvs) then None else Some ''[object Object]'')"

text \<open>ToNumber, which \<open>isNaN(value)\<close> and \<open>Number(value)\<close> apply to their argument.\<close>

definition to_number :: "jsval \<Rightarrow> jsnum option" where
  "to_number v =
     (case v of
        JUndefined \<Rightarrow> Some NaN
      | JNull \<Rightarrow> Some (Dec 0 0)
      | JBool b \<Rightarrow> Some (Dec (if b then 1 else 0) 0)
      | JNum x \<Rightarrow> Some x
      | JStr s \<Rightarrow> Some (StringToNumber s)
      | JArr xs \<Rightarrow> map_option StringToNumber (to_string (JArr xs))
      | JObj kvs \<Rightarrow> map_option StringToNumber (to_string (JObj kvs)))"

text \<open>\<open>Object.entries(v)\<close>; \<open>None\<close> is the TypeError on null and undefined.\<close>

definition object_entries :: "jsval \<Rightarrow> jsobj option" where
  "object_entries v =
     (case v of
        JUndefined \<Rightarrow> None
      | JNull \<Rightarrow> None
      | JObj kvs \<Rightarrow> Some kvs
      | JArr xs \<Rightarrow> Some (zip (map digits [0..<length xs]) xs)
      | JStr s \<Rightarrow> Some (zip (map digits [0..<length s]) (map (\<lambda>c. JStr [c]) s))
      | other \<Rightarrow> Some [])"

text \<open>
  Defining an own property of a plain object: an existing property keeps its place; a
  new one goes to the end, except that array indices are enumerated first, in ascending
  order.
\<close>

definition is_array_index :: "string \<Rightarrow> bool" where
  "is_array_index k =
     (k \<noteq> [] \<and> list_all is_digit k \<and> (k = ''0'' \<or> hd k \<noteq> CHR ''0'')
      \<and> int (radix_val 10 k) < 4294967295)"

fun insert_index :: "string \<Rightarrow> 'a \<Rightarrow> (string \<times> 'a) list \<Rightarrow> (string \<times> 'a) list" where
  "insert_index k v [] = [(k, v)]"
| "insert_index k v ((k', v') # rest) =
     (if is_array_index k' \<and> radix_val 10 k' < radix_val 10 k
      then (k', v') # insert_index k v rest
      else (k, v) # (k', v') # rest)"

definition obj_define :: "(string \<times> 'a) list \<Rightarrow> string \<Rightarrow> 'a \<Rightarrow> (string \<times> 'a) list" where
  "obj_define obj k v =
     (if k \<in> set (map fst obj)
        then map (\<lambda>(k', v'). if k' = k then (k', v) else (k', v')) obj
      else if is_array_index k then insert_index k v obj
      else obj @ [(k, v)])"

text \<open>
  \<open>obj[key] = v\<close> on a plain object. Assigning to \<open>__proto__\<close> never creates an own
  property (it changes the prototype when \<open>v\<close> is an object or null, which this model
  does not record).
\<close>

definition obj_set :: "(string \<times> 'a) list \<Rightarrow> string \<Rightarrow> 'a \<Rightarrow> (string \<times> 'a) list" where
  "obj_set obj k v = (if k = ''__proto__'' then obj else obj_define obj k v)"

text \<open>
  \<open>{ ...obj, ...src }\<close>: the own properties of \<open>src\<close> are defined on a copy of \<open>obj\<close>, in
  order; null and undefined spread to nothing.
\<close>

definition spread :: "jsobj \<Rightarrow> jsval \<Rightarrow> jsobj" where
  "spread obj src =
     foldl (\<lambda>acc kv. obj_define acc (fst kv) (snd kv)) (foldl (\<lambda>acc kv. obj_define acc (fst kv) (snd kv)) [] obj)
       (case object_entries src of None \<Rightarrow> [] | Some entries \<Rightarrow> entries)"

text \<open>\<open>obj.name\<close> for a name that \<open>Object.prototype\<close> does not have.\<close>

definition field :: "jsobj \<Rightarrow> string \<Rightarrow> jsval" where
  "field obj name = (case map_of obj name of Some v \<Rightarrow> v | None \<Rightarrow> JUndefined)"

section \<open>Target.dataToObject\<close>

text \<open>
  The body of the \<open>reduce\<close> callback for one value. \<open>JSON.parse\<close> belongs to the host
  and is a parameter: \<open>None\<close> when it throws. Outside the \<open>try\<close>, \<open>None\<close> is a TypeError:
  \<open>isNaN\<close> of an object without a primitive value, or \<open>value.startsWith\<close> on a value
  that is not a string.
\<close>

definition coerce :: "(string \<Rightarrow> jsval option) \<Rightarrow> jsval \<Rightarrow> jsval option" where
  "coerce json_parse v =
     (if v = JStr ''true'' \<or> v = JStr ''false'' then Some (JBool (v = JStr ''true''))
      else
        (case to_number v of
           None \<Rightarrow> None
         | Some n \<Rightarrow>
             if n \<noteq> NaN then Some (JNum n)
             else
               (case v of
                  JStr s \<Rightarrow>
                    if s \<noteq> [] \<and> hd s = CHR ''{'' \<and> last s = CHR ''}'' then
                      (case json_parse s of Some parsed \<Rightarrow> Some parsed | None \<Rightarrow> Some (JStr s))
                    else Some (JStr s)
                | other \<Rightarrow> None)))"

fun reduce_entries ::
  "(string \<Rightarrow> jsval option) \<Rightarrow> jsobj \<Rightarrow> jsobj \<Rightarrow> error + jsobj" where
  "reduce_entries json_parse acc [] = Inr acc"
| "reduce_entries json_parse acc ((key, v) # rest) =
     (case coerce json_parse v of
        None \<Rightarrow> Inl TypeError
      | Some v' \<Rightarrow> reduce_entries json_parse (obj_set acc key v') rest)"

definition dataToObject :: "(string \<Rightarrow> jsval option) \<Rightarrow> jsval \<Rightarrow> error + jsobj" where
  "dataToObject json_parse data =
     (if \<not> truthy data then Inr []
      else (case object_entries data of
              None \<Rightarrow> Inl TypeError
            | Some entries \<Rightarrow> reduce_entries json_parse [] entries))"

section \<open>The document\<close>

text \<open>
  The children of \<open>document.head\<close>, each with an identity. A \<open>style\<close> node carries its
  text, a \<open>link\<close> node its \<open>rel\<close>, \<open>href\<close> and \<open>crossorigin\<close>; both carry the
  attribute \<open>data-style-key\<close>.
\<close>

record hnode =
  node_id :: nat
  tag :: string
  data_style_key :: "string option"
  style_text :: string
  rel :: string
  href :: string
  crossorigin :: bool

text \<open>
  What lies under a container element: nodes, or the markup last assigned to
  \<open>innerHTML\<close> (the host parses it).
\<close>

datatype dnode =
    Element string "(string \<times> string) list" "dnode list"
  | Text string
  | Comment string

datatype content = Nodes "dnode list" | InnerHTML string

record element =
  attributes :: "(string \<times> string) list"
  inner :: content

record document =
  head :: "hnode list"
  next_id :: nat
  elements :: "nat \<Rightarrow> element"
  title :: jsval

text \<open>A call either returns or throws; the state reached is kept in both cases.\<close>

datatype 's outcome = Normal 's | Thrown error 's

definition state_of :: "'s outcome \<Rightarrow> 's" where
  "state_of r = (case r of Normal s \<Rightarrow> s | Thrown e s \<Rightarrow> s)"

section \<open>StyleManager\<close>

text \<open>
  \<open>styles\<close> is a \<open>Map\<close> from key to style node, \<open>injectedLinks\<close> a \<open>Set\<close> of hrefs; both
  keep insertion order.
\<close>

record style_manager =
  styles :: "(string \<times> nat) list"
  injectedLinks :: "string list"

definition new_style_manager :: style_manager where
  "new_style_manager = \<lparr>styles = [], injectedLinks = []\<rparr>"

definition map_has :: "(string \<times> 'a) list \<Rightarrow> string \<Rightarrow> bool" where
  "map_has m k = (k \<in> set (map fst m))"

definition map_set :: "(string \<times> 'a) list \<Rightarrow> string \<Rightarrow> 'a \<Rightarrow> (string \<times> 'a) list" where
  "map_set m k v =
     (if map_has m k then map (\<lambda>(k', v'). if k' = k then (k', v) else (k', v')) m
      else m @ [(k, v)])"

definition map_delete :: "(string \<times> 'a) list \<Rightarrow> string \<Rightarrow> (string \<times> 'a) list" where
  "map_delete m k = filter (\<lambda>(k', v'). k' \<noteq> k) m"

definition set_add :: "string list \<Rightarrow> string \<Rightarrow> string list" where
  "set_add s x = (if x \<in> set s then s else s @ [x])"

text \<open>
  \<open>document.querySelector('style[data-style-key="KEY"]')\<close> and the same for \<open>link\<close>:
  the first node of that tag whose attribute equals the key. The selector is built by
  interpolation, so this reading needs a key without quote or backslash. The search
  covers the children of the head, where the manager puts its nodes; a \<open>style\<close> or
  \<open>link\<close> element elsewhere in the document (in the markup of a container, say) is
  not seen here, though \<open>querySelector\<close> would return it when the head has no match.
\<close>

definition query_selector :: "string \<Rightarrow> string \<Rightarrow> document \<Rightarrow> hnode option" where
  "query_selector tg key d =
     find (\<lambda>n. tag n = tg \<and> data_style_key n = Some key) (head d)"

text \<open>
  \<open>document.head.removeChild(el)\<close> for a node the query above has found, a child of the
  head. (For an element found outside the head the call would throw a NotFoundError,
  and the caller with it; no such element is found here.)
\<close>

definition remove_child :: "hnode \<Rightarrow> document \<Rightarrow> document" where
  "remove_child el d = d\<lparr>head := filter (\<lambda>n. node_id n \<noteq> node_id el) (head d)\<rparr>"

definition isStyleLoaded :: "string \<Rightarrow> style_manager \<times> document \<Rightarrow> bool" where
  "isStyleLoaded key st =
     (map_has (styles (fst st)) key \<or> query_selector ''style'' key (snd st) \<noteq> None)"

definition isInjectedLinkedStyleLoaded :: "string \<Rightarrow> style_manager \<times> document \<Rightarrow> bool" where
  "isInjectedLinkedStyleLoaded h st =
     (h \<in> set (injectedLinks (fst st)) \<or> query_selector ''link'' h (snd st) \<noteq> None)"

text \<open>\<open>rules.replace(/\s*([:;,{])\s*/g, '$1')\<close>.\<close>

definition is_delimiter :: "char \<Rightarrow> bool" where
  "is_delimiter c = (c \<in> set '':;,{'')"

function compact :: "string \<Rightarrow> string" where
  "compact [] = []"
| "compact (c # cs) =
     (case dropWhile is_space (c # cs) of
        [] \<Rightarrow> c # compact cs
      | d # rest \<Rightarrow>
          if is_delimiter d then d # compact (dropWhile is_space rest) else c # compact cs)"
  by pat_completeness auto
termination
proof (relation "measure length", goal_cases)
  case 1
  show ?case by simp
next
  case (2 c cs)
  show ?case by simp
next
  case (3 c cs d rest)
  have "length (dropWhile is_space rest) \<le> length rest"
    by (rule length_dropWhile_le_aux)
  moreover have "length (dropWhile is_space (c # cs)) \<le> length (c # cs)"
    by (rule length_dropWhile_le_aux)
  ultimately show ?case using 3 by simp
next
  case (4 c cs d rest)
  show ?case by simp
qed

fun split_on :: "char \<Rightarrow> string \<Rightarrow> string list" where
  "split_on sep [] = [[]]"
| "split_on sep (x # xs) =
     (if x = sep then [] # split_on sep xs
      else (case split_on sep xs of [] \<Rightarrow> [[x]] | p # ps \<Rightarrow> (x # p) # ps))"

definition prefixSelector :: "string \<Rightarrow> string \<Rightarrow> string" where
  "prefixSelector selector hash =
     join '', '' (map (\<lambda>sel. trim sel @ ''-'' @ hash) (split_on (CHR '','') selector))"

text \<open>
  \<open>processRules\<close>; \<open>None\<close> is the TypeError of \<open>Object.entries\<close> on null or undefined
  and of \<open>rule.replace\<close> on a value that is not a string.
\<close>

definition process_rule :: "string \<Rightarrow> bool \<Rightarrow> string \<times> jsval \<Rightarrow> string option" where
  "process_rule hash scoped entry =
     (case snd entry of
        JStr rule \<Rightarrow>
          Some ((if scoped then prefixSelector (fst entry) hash else fst entry)
                @ '' { '' @ compact rule @ '' }'')
      | other \<Rightarrow> None)"

definition processRules :: "jsval \<Rightarrow> string \<Rightarrow> bool \<Rightarrow> string option" where
  "processRules rules hash scoped =
     (case object_entries rules of
        None \<Rightarrow> None
      | Some entries \<Rightarrow> map_option (join '' '') (those (map (process_rule hash scoped) entries)))"

text \<open>The \<open>forEach\<close> that builds \<open>cssString\<close>, one entry of \<open>css\<close> after the other.\<close>

fun css_text :: "string \<Rightarrow> bool \<Rightarrow> jsobj \<Rightarrow> string option" where
  "css_text hash scoped [] = Some []"
| "css_text hash scoped ((selector, rules) # rest) =
     (case (if take 6 selector = ''@media''
            then map_option (\<lambda>r. selector @ '' { '' @ r @ '' }'') (processRules rules hash scoped)
            else process_rule hash scoped (selector, rules)) of
        None \<Rightarrow> None
      | Some piece \<Rightarrow> map_option (\<lambda>more. piece @ more) (css_text hash scoped rest))"

definition set_text :: "nat \<Rightarrow> string \<Rightarrow> document \<Rightarrow> document" where
  "set_text i s d =
     d\<lparr>head := map (\<lambda>n. if node_id n = i then n\<lparr>style_text := s\<rparr> else n) (head d)\<rparr>"

definition addStyle ::
  "string \<Rightarrow> jsval \<Rightarrow> string \<Rightarrow> bool \<Rightarrow> style_manager \<times> document
     \<Rightarrow> (style_manager \<times> document) outcome" where
  "addStyle key css hash scoped st =
     (if isStyleLoaded key st then Normal st
      else
        (let sm = fst st; d = snd st;
             styleElement = \<lparr>node_id = next_id d, tag = ''style'',
                             data_style_key = Some (key @ ''-'' @ hash), style_text = [],
                             rel = [], href = [], crossorigin = False\<rparr>;
             d1 = d\<lparr>head := head d @ [styleElement], next_id := Suc (next_id d)\<rparr>;
             sm1 = sm\<lparr>styles := map_set (styles sm) key (node_id styleElement)\<rparr>
         in case object_entries css of
              None \<Rightarrow> Thrown TypeError (sm1, d1)
            | Some entries \<Rightarrow>
                (case css_text hash scoped entries of
                   None \<Rightarrow> Thrown TypeError (sm1, d1)
                 | Some cssString \<Rightarrow>
                     Normal (sm1, set_text (node_id styleElement) cssString d1))))"

definition removeStyle :: "string \<Rightarrow> style_manager \<times> document \<Rightarrow> style_manager \<times> document" where
  "removeStyle key st =
     (case query_selector ''style'' key (snd st) of
        None \<Rightarrow> st
      | Some styleElement \<Rightarrow>
          ((fst st)\<lparr>styles := map_delete (styles (fst st)) key\<rparr>,
           remove_child styleElement (snd st)))"

definition injectLinkedStyle ::
  "string \<Rightarrow> string \<Rightarrow> string \<Rightarrow> style_manager \<times> document \<Rightarrow> style_manager \<times> document" where
  "injectLinkedStyle h r co st =
     (if isInjectedLinkedStyleLoaded h st then st
      else
        (let sm = fst st; d = snd st;
             styleElement = \<lparr>node_id = next_id d, tag = ''link'', data_style_key = Some h,
                             style_text = [], rel = r, href = h, crossorigin = (co \<noteq> [])\<rparr>
         in (sm\<lparr>injectedLinks := set_add (injectedLinks sm) h\<rparr>,
             d\<lparr>head := head d @ [styleElement], next_id := Suc (next_id d)\<rparr>)))"

definition removeInjectedLinkedStyle ::
  "string \<Rightarrow> style_manager \<times> document \<Rightarrow> style_manager \<times> document" where
  "removeInjectedLinkedStyle h st =
     (case query_selector ''link'' h (snd st) of
        None \<Rightarrow> st
      | Some styleElement \<Rightarrow>
          ((fst st)\<lparr>injectedLinks := filter (\<lambda>x. x \<noteq> h) (injectedLinks (fst st))\<rparr>,
           remove_child styleElement (snd st)))"

text \<open>
  The two \<open>for ... of\<close> loops. Each step deletes at most the entry it visits, so the
  loops visit the keys and hrefs present at their start.
\<close>

definition removeAllStyles :: "style_manager \<times> document \<Rightarrow> style_manager \<times> document" where
  "removeAllStyles st =
     (let st1 = fold removeStyle (map fst (styles (fst st))) st
      in fold removeInjectedLinkedStyle (injectedLinks (fst st1)) st1)"

definition empty_document :: document where
  "empty_document =
     \<lparr>head = [], next_id = 0, elements = (\<lambda>r. \<lparr>attributes = [], inner = Nodes []\<rparr>),
      title = JStr []\<rparr>"

section \<open>Target\<close>

text \<open>
  An instance of \<open>Target\<close> or of a subclass. \<open>container\<close> refers to an element of the
  document and is null after \<open>destroy\<close>; \<open>api\<close> tells whether \<open>fetch\<close> has created the
  request object. The instance, the document and a record of the lifecycle calls made
  so far (which is not part of the program) form the state \<open>sys\<close>.
\<close>

record target =
  class_name :: string
  props :: jsobj
  state :: jsobj
  container :: "nat option"
  api :: bool
  isMounted :: bool
  styleManager :: style_manager
  hash :: string
  styleId :: "string option"

datatype event = WillMount | DomWrite string | DidMount | DidUpdate

record sys =
  self :: target
  doc :: document
  trace :: "event list"

definition log_call :: "event \<Rightarrow> sys \<Rightarrow> sys" where
  "log_call ev s = s\<lparr>trace := trace s @ [ev]\<rparr>"

definition seq :: "'s outcome \<Rightarrow> ('s \<Rightarrow> 's outcome) \<Rightarrow> 's outcome" where
  "seq r f = (case r of Normal s \<Rightarrow> f s | Thrown e s \<Rightarrow> Thrown e s)"

text \<open>
  \<open>generateRandomHash\<close>. A value of \<open>Math.random()\<close> is given by the digits of its
  fraction in base 36, as \<open>toString(36)\<close> prints them: \<open>0\<close> for zero, else \<open>0.\<close> and the
  digits (no exponent form is printed in base 36).
\<close>

definition random_toString36 :: "nat list \<Rightarrow> string" where
  "random_toString36 ds = (if ds = [] then ''0'' else ''0.'' @ map digit_char ds)"

definition substring :: "nat \<Rightarrow> nat \<Rightarrow> string \<Rightarrow> string" where
  "substring a b s = take (b - a) (drop a s)"

definition generateRandomHash :: "nat list \<Rightarrow> nat list \<Rightarrow> string" where
  "generateRandomHash r1 r2 =
     substring 2 6 (random_toString36 r1) @ substring 2 6 (random_toString36 r2)"

text \<open>The constructor, for a container that is an element, and the two random numbers it draws.\<close>

definition new_Target ::
  "string \<Rightarrow> jsobj \<Rightarrow> nat \<Rightarrow> nat list \<Rightarrow> nat list \<Rightarrow> document \<Rightarrow> target" where
  "new_Target name p c r1 r2 d =
     \<lparr>class_name = name, props = p, state = [], container = Some c, api = False,
      isMounted = False, styleManager = new_style_manager,
      hash = generateRandomHash r1 r2,
      styleId = map_of (attributes (elements d c)) ''data-target-name''\<rparr>"

text \<open>
  The methods a subclass overrides. A hook can call \<open>this.setState\<close>, which is its first
  argument; \<open>render\<close> returns the markup or throws.
\<close>

record hooks =
  targetWillMount :: "(jsval \<Rightarrow> sys \<Rightarrow> sys outcome) \<Rightarrow> sys \<Rightarrow> sys outcome"
  render :: "sys \<Rightarrow> (error + string) \<times> sys"
  targetDidMount :: "(jsval \<Rightarrow> sys \<Rightarrow> sys outcome) \<Rightarrow> sys \<Rightarrow> sys outcome"
  targetDidUpdate :: "(jsval \<Rightarrow> sys \<Rightarrow> sys outcome) \<Rightarrow> sys \<Rightarrow> sys outcome"

text \<open>The hooks of \<open>Target\<close> itself only write to the console; its \<open>render\<close> returns \<open>""\<close>.\<close>

definition Target_hooks :: hooks where
  "Target_hooks =
     \<lparr>targetWillMount = (\<lambda>this_setState s. Normal s),
      render = (\<lambda>s. (Inr [], s)),
      targetDidMount = (\<lambda>this_setState s. Normal s),
      targetDidUpdate = (\<lambda>this_setState s. Normal s)\<rparr>"

definition set_innerHTML :: "nat \<Rightarrow> string \<Rightarrow> sys \<Rightarrow> sys" where
  "set_innerHTML c html s =
     s\<lparr>doc := (doc s)\<lparr>elements := (elements (doc s))(c := (elements (doc s) c)\<lparr>inner := InnerHTML html\<rparr>)\<rparr>\<rparr>"

text \<open>
  The body of \<open>update()\<close>, with \<open>this.setState\<close> as a parameter. The element assigned to
  is the container as it is when the assignment starts, before \<open>render\<close> runs.
\<close>

definition update_body :: "hooks \<Rightarrow> (jsval \<Rightarrow> sys \<Rightarrow> sys outcome) \<Rightarrow> sys \<Rightarrow> sys outcome" where
  "update_body h this_setState s =
     (if container (self s) = None then Normal s
      else
        seq (if \<not> isMounted (self s) then targetWillMount h this_setState (log_call WillMount s)
             else Normal s)
          (\<lambda>s1. case render h s1 of
                   (Inl e, s2) \<Rightarrow> Thrown e s2
                 | (Inr html, s2) \<Rightarrow>
                     (case container (self s1) of
                        None \<Rightarrow> Thrown TypeError s2
                      | Some c \<Rightarrow>
                          seq (if \<not> isMounted (self s2)
                               then seq (targetDidMount h this_setState
                                           (log_call DidMount (log_call (DomWrite html) (set_innerHTML c html s2))))
                                      (\<lambda>s3. Normal (s3\<lparr>self := (self s3)\<lparr>isMounted := True\<rparr>\<rparr>))
                               else Normal (log_call (DomWrite html) (set_innerHTML c html s2)))
                            (\<lambda>s4. targetDidUpdate h this_setState (log_call DidUpdate s4)))))"

definition merge_state :: "jsval \<Rightarrow> sys \<Rightarrow> sys" where
  "merge_state newState s = s\<lparr>self := (self s)\<lparr>state := spread (state (self s)) newState\<rparr>\<rparr>"

text \<open>
  \<open>update()\<close> and \<open>setState(newState)\<close>. A hook that calls \<open>setState\<close> re-enters
  \<open>update\<close>; the first argument bounds how deep such calls may nest before the call
  stack is exhausted (a RangeError).
\<close>

primrec update :: "nat \<Rightarrow> hooks \<Rightarrow> sys \<Rightarrow> sys outcome" where
  "update 0 h = update_body h (\<lambda>newState s. Thrown RangeError (merge_state newState s))"
| "update (Suc n) h = update_body h (\<lambda>newState s. update n h (merge_state newState s))"

definition setState :: "nat \<Rightarrow> hooks \<Rightarrow> jsval \<Rightarrow> sys \<Rightarrow> sys outcome" where
  "setState n h newState s = update n h (merge_state newState s)"

definition unmount :: "sys \<Rightarrow> sys outcome" where
  "unmount s =
     (let st = removeAllStyles (styleManager (self s), doc s);
          s1 = s\<lparr>self := (self s)\<lparr>styleManager := fst st\<rparr>, doc := snd st\<rparr>
      in case container (self s1) of
           None \<Rightarrow> Thrown TypeError s1
         | Some c \<Rightarrow>
             Normal (s1\<lparr>doc := (doc s1)\<lparr>elements :=
                       (elements (doc s1))(c := (elements (doc s1) c)\<lparr>inner := InnerHTML []\<rparr>)\<rparr>\<rparr>))"

definition destroy :: "sys \<Rightarrow> sys outcome" where
  "destroy s = seq (unmount s) (\<lambda>s1. Normal (s1\<lparr>self := (self s1)\<lparr>container := None\<rparr>\<rparr>))"

subsection \<open>initialize\<close>

definition is_lower :: "char \<Rightarrow> bool" where
  "is_lower c = (let n = (of_char c :: nat) in 97 \<le> n \<and> n \<le> 122)"

definition is_upper :: "char \<Rightarrow> bool" where
  "is_upper c = (let n = (of_char c :: nat) in 65 \<le> n \<and> n \<le> 90)"

definition to_lower :: "char \<Rightarrow> char" where
  "to_lower c = (if is_upper c then char_of (of_char c + (32 :: nat)) else c)"

definition to_upper :: "char \<Rightarrow> char" where
  "to_upper c = (if is_lower c then char_of (of_char c - (32 :: nat)) else c)"

text \<open>The name under which \<open>el.dataset\<close> lists the attribute \<open>data-NAME\<close>.\<close>

fun camel :: "string \<Rightarrow> string" where
  "camel (c # d # rest) =
     (if c = CHR ''-'' \<and> is_lower d then to_upper d # camel rest else c # camel (d # rest))"
| "camel cs = cs"

definition dataset :: "(string \<times> string) list \<Rightarrow> (string \<times> string) list" where
  "dataset attrs =
     map (\<lambda>a. (camel (drop 5 (fst a)), snd a))
       (filter (\<lambda>a. take 5 (fst a) = ''data-'' \<and> \<not> list_ex is_upper (drop 5 (fst a))) attrs)"

text \<open>\<open>el.removeAttribute(name)\<close> in an HTML document: the name is lowercased first.\<close>

definition removeAttribute :: "string \<Rightarrow> (string \<times> string) list \<Rightarrow> (string \<times> string) list" where
  "removeAttribute name attrs = filter (\<lambda>a. fst a \<noteq> map to_lower name) attrs"

text \<open>
  The inner \<open>forEach\<close> over \<open>Object.keys(el.dataset)\<close>, a list taken before the loop;
  \<open>el.dataset[key]\<close> is read from the attributes as they are at that step.
\<close>

fun copy_keys ::
  "string list \<Rightarrow> jsobj \<times> (string \<times> string) list \<Rightarrow> jsobj \<times> (string \<times> string) list" where
  "copy_keys [] st = st"
| "copy_keys (key # keys) (p, attrs) =
     copy_keys keys
       (obj_set p key (case map_of (dataset attrs) key of Some v \<Rightarrow> JStr v | None \<Rightarrow> JUndefined),
        removeAttribute (''data-'' @ key) attrs)"

text \<open>
  The outer \<open>forEach\<close> over the descendants that carry \<open>data-target-name\<close>, in document
  order. A step changes only the element it visits.
\<close>

fun init_node :: "jsobj \<Rightarrow> dnode \<Rightarrow> jsobj \<times> dnode"
  and init_nodes :: "jsobj \<Rightarrow> dnode list \<Rightarrow> jsobj \<times> dnode list" where
  "init_node p (Element tg attrs kids) =
     (let st = (if ''data-target-name'' \<in> set (map fst attrs)
                then copy_keys (map fst (dataset attrs)) (p, attrs) else (p, attrs));
          sub = init_nodes (fst st) kids
      in (fst sub, Element tg (snd st) (snd sub)))"
| "init_node p (Text t) = (p, Text t)"
| "init_node p (Comment t) = (p, Comment t)"
| "init_nodes p [] = (p, [])"
| "init_nodes p (n # ns) =
     (let a = init_node p n; b = init_nodes (fst a) ns in (fst b, snd a # snd b))"

text \<open>
  \<open>initialize()\<close>. The host's HTML parser is a parameter, used when the container holds
  markup assigned to \<open>innerHTML\<close>; \<open>dev\<close> is \<open>config.logger && config.dev\<close> of the
  configuration module.
\<close>

definition initialize :: "(string \<Rightarrow> dnode list) \<Rightarrow> bool \<Rightarrow> sys \<Rightarrow> sys outcome" where
  "initialize html_parse dev s =
     (case container (self s) of
        None \<Rightarrow> Thrown TypeError s
      | Some c \<Rightarrow>
          (let el = elements (doc s) c;
               nodes = (case inner el of Nodes ns \<Rightarrow> ns | InnerHTML m \<Rightarrow> html_parse m);
               r = init_nodes (props (self s)) nodes;
               label = class_name (self s) @ '' - '' @ hash (self s);
               nodes' = (if dev
                         then Comment (''Start of '' @ label) # snd r @ [Comment (''End of '' @ label)]
                         else snd r)
           in Normal (s\<lparr>self := (self s)\<lparr>props := fst r\<rparr>,
                        doc := (doc s)\<lparr>elements := (elements (doc s))(c := el\<lparr>inner := Nodes nodes'\<rparr>)\<rparr>\<rparr>)))"

section \<open>Target.scopeCSS\<close>

text \<open>One match of \<open>/class="([^"]*)"/\<close> at the start of the string.\<close>

definition class_match :: "string \<Rightarrow> (string \<times> string) option" where
  "class_match s =
     (if take 7 s \<noteq> ''class='' @ [CHR 0x22] then None
      else
        (let classNames = takeWhile (\<lambda>x. x \<noteq> CHR 0x22) (drop 7 s);
             s1 = dropWhile (\<lambda>x. x \<noteq> CHR 0x22) (drop 7 s)
         in if s1 = [] then None else Some (classNames, tl s1)))"

lemma class_match_shorter:
  "class_match s = Some (v, r) \<Longrightarrow> length r < length s"
proof -
  assume a: "class_match s = Some (v, r)"
  let ?s1 = "dropWhile (\<lambda>x. x \<noteq> CHR 0x22) (drop 7 s)"
  from a have s1: "?s1 \<noteq> []" and r: "r = tl ?s1"
    by (auto simp: class_match_def Let_def split: if_splits)
  have "length ?s1 \<le> length (drop 7 s)" by (rule length_dropWhile_le_aux)
  then have "length ?s1 \<le> length s" by simp
  moreover from s1 have "length (tl ?s1) < length ?s1" by (cases ?s1) auto
  ultimately show ?thesis using r by simp
qed

function scope_classes :: "string \<Rightarrow> string \<Rightarrow> string" where
  "scope_classes suffix [] = []"
| "scope_classes suffix (c # cs) =
     (case class_match (c # cs) of
        None \<Rightarrow> c # scope_classes suffix cs
      | Some (classNames, rest) \<Rightarrow>
          ''class='' @ [CHR 0x22]
          @ join '' '' (map (\<lambda>className. className @ ''-'' @ suffix) (split_on (CHR '' '') classNames))
          @ [CHR 0x22] @ scope_classes suffix rest)"
  by pat_completeness auto
termination
  by (relation "measure (\<lambda>(x, s). length s)") (auto dest: class_match_shorter)

definition scopeCSS :: "jsval \<Rightarrow> string \<Rightarrow> error + string" where
  "scopeCSS html suffix =
     (case html of JStr s \<Rightarrow> Inr (scope_classes suffix s) | other \<Rightarrow> Inl TypeError)"

section \<open>FluidContainer\<close>

text \<open>
  The subclass \<open>FluidContainer\<close>. Two collaborators are not among the sources.
  Modelled from the spec: \<open>HTTPRequest\<close>, whose \<open>get(endpoint)\<close> returns a promise; the
  callbacks given to \<open>then\<close> and \<open>catch\<close> run after the current call has returned, so
  creating the request and calling \<open>get\<close> change nothing here.
  Modelled from the spec: \<open>HeadManager\<close>, whose \<open>setTitle\<close> sets the title of the document.
\<close>

definition new_FluidContainer ::
  "jsobj \<Rightarrow> nat \<Rightarrow> nat list \<Rightarrow> nat list \<Rightarrow> document \<Rightarrow> target" where
  "new_FluidContainer p c r1 r2 d =
     (new_Target ''FluidContainer'' p c r1 r2 d)
       \<lparr>state := [(''data'', JNull), (''loading'', JBool True), (''error'', JNull),
                  (''fetched'', JBool False)],
        api := truthy (field p ''api'')\<rparr>"

definition with_styles ::
  "(style_manager \<times> document \<Rightarrow> (style_manager \<times> document) outcome) \<Rightarrow> sys \<Rightarrow> sys outcome" where
  "with_styles f s =
     (case f (styleManager (self s), doc s) of
        Normal st \<Rightarrow> Normal (s\<lparr>self := (self s)\<lparr>styleManager := fst st\<rparr>, doc := snd st\<rparr>)
      | Thrown e st \<Rightarrow> Thrown e (s\<lparr>self := (self s)\<lparr>styleManager := fst st\<rparr>, doc := snd st\<rparr>))"

text \<open>
  An argument with the default \<open>''\<close>, as the string it is used as. (A value that is not
  a string is kept as it is in the \<open>Set\<close> of hrefs; the model keeps its string.)
\<close>

definition string_arg :: "jsval \<Rightarrow> string option" where
  "string_arg v = (if v = JUndefined then Some [] else to_string v)"

text \<open>
  One step of \<open>this.props.links.forEach\<close>. Reading \<open>link.link\<close> of null or undefined is a
  TypeError. On a string it is the method \<open>String.prototype.link\<close>, a function used as
  data, which the values of this model cannot hold: such a run ends as \<open>Unsupported\<close>.
\<close>

definition inject_link :: "jsval \<Rightarrow> sys \<Rightarrow> sys outcome" where
  "inject_link link s =
     (case link of
        JUndefined \<Rightarrow> Thrown TypeError s
      | JNull \<Rightarrow> Thrown TypeError s
      | JStr x \<Rightarrow> Thrown Unsupported s
      | other \<Rightarrow>
          (let obj = (case link of JObj kvs \<Rightarrow> kvs | other \<Rightarrow> [])
           in case (string_arg (field obj ''link''), string_arg (field obj ''rel'')) of
                (Some h, Some r) \<Rightarrow>
                  with_styles
                    (\<lambda>st. Normal (injectLinkedStyle h r
                                     (if truthy (field obj ''crossorigin'') then ''crossorigin'' else []) st))
                    s
              | other \<Rightarrow> Thrown TypeError s))"

fun inject_links :: "jsval list \<Rightarrow> sys \<Rightarrow> sys outcome" where
  "inject_links [] s = Normal s"
| "inject_links (link # links) s = seq (inject_link link s) (inject_links links)"

text \<open>
  \<open>this.props.links && this.props.links.length > 0\<close>, then \<open>forEach\<close>, which only an array
  has.
\<close>

definition positive :: "jsval \<Rightarrow> bool option" where
  "positive v =
     map_option (\<lambda>n. case n of NaN \<Rightarrow> False | PosInf \<Rightarrow> True | NegInf \<Rightarrow> False | Dec m e \<Rightarrow> 0 < m)
       (to_number v)"

definition the_styleId :: "string option \<Rightarrow> string" where
  "the_styleId k = (case k of None \<Rightarrow> ''null'' | Some key \<Rightarrow> key)"

definition FluidContainer_targetWillMount ::
  "(jsval \<Rightarrow> sys \<Rightarrow> sys outcome) \<Rightarrow> sys \<Rightarrow> sys outcome" where
  "FluidContainer_targetWillMount this_setState s =
     seq (if truthy (field (props (self s)) ''css'')
          then with_styles
                 (addStyle (the_styleId (styleId (self s))) (field (props (self s)) ''css'')
                    (hash (self s)) (truthy (field (props (self s)) ''scoped'')))
                 s
          else Normal s)
       (\<lambda>s1. case field (props (self s1)) ''links'' of
                JArr links \<Rightarrow> inject_links links s1
              | JStr x \<Rightarrow> if x \<noteq> [] then Thrown TypeError s1 else Normal s1
              | JObj kvs \<Rightarrow>
                  (case positive (field kvs ''length'') of
                     None \<Rightarrow> Thrown TypeError s1
                   | Some b \<Rightarrow> if b then Thrown TypeError s1 else Normal s1)
              | other \<Rightarrow> Normal s1)"

definition FluidContainer_targetDidMount ::
  "(jsval \<Rightarrow> sys \<Rightarrow> sys outcome) \<Rightarrow> sys \<Rightarrow> sys outcome" where
  "FluidContainer_targetDidMount this_setState s =
     seq (if \<not> truthy (field (state (self s)) ''fetched'') \<and> truthy (field (props (self s)) ''api'')
          then (if api (self s) then Normal s else Thrown TypeError s)
          else Normal s)
       (\<lambda>s1. if \<not> truthy (field (props (self s1)) ''api'')
                 \<and> \<not> truthy (field (state (self s1)) ''fetched'')
              then this_setState (JObj [(''loading'', JBool False), (''fetched'', JBool True)]) s1
              else Normal s1)"

definition loading_html :: string where
  \<open>loading_html =
     [CHR 0x0A] @ ''        <div data-target-name="loading" data-message='Loading...'></div>''
     @ [CHR 0x0A] @ ''      ''\<close>

definition error_html :: "string \<Rightarrow> string" where
  \<open>error_html message =
     [CHR 0x0A] @ ''        <div data-target-name="error" data-message='' @ [CHR 0x27] @ message
     @ [CHR 0x27] @ ''></div>'' @ [CHR 0x0A] @ ''      ''\<close>

definition setTitle :: "jsval \<Rightarrow> sys \<Rightarrow> sys" where
  "setTitle t s = s\<lparr>doc := (doc s)\<lparr>title := t\<rparr>\<rparr>"

text \<open>\<open>JSON.parse\<close>, which \<open>dataToObject\<close> uses, is a parameter of the class.\<close>

definition FluidContainer_render ::
  "(string \<Rightarrow> jsval option) \<Rightarrow> sys \<Rightarrow> (error + string) \<times> sys" where
  "FluidContainer_render json_parse s =
     (if truthy (field (state (self s)) ''loading'') then (parseHTML (JStr loading_html) [], s)
      else if truthy (field (state (self s)) ''error'') then
        (case to_string (field (state (self s)) ''error'') of
           None \<Rightarrow> (Inl TypeError, s)
         | Some message \<Rightarrow> (parseHTML (JStr (error_html message)) [], s))
      else
        (case (if truthy (field (props (self s)) ''scoped'')
               then (case scopeCSS (field (props (self s)) ''html'') (hash (self s)) of
                       Inl e \<Rightarrow> Inl e
                     | Inr scoped \<Rightarrow>
                         Inr (s\<lparr>self := (self s)\<lparr>props := obj_set (props (self s)) ''html'' (JStr scoped)\<rparr>\<rparr>))
               else Inr s) of
           Inl e \<Rightarrow> (Inl e, s)
         | Inr s1 \<Rightarrow>
             (let data = field (state (self s1)) ''data''
              in if truthy data then
                   (let t = (case data of JObj kvs \<Rightarrow> field kvs ''title'' | other \<Rightarrow> JUndefined);
                        s2 = (if truthy t then setTitle t s1 else s1)
                    in case dataToObject json_parse data of
                         Inl e \<Rightarrow> (Inl e, s2)
                       | Inr placeholders \<Rightarrow>
                           (parseHTML (field (props (self s2)) ''html'') placeholders, s2))
                 else (parseHTML (field (props (self s1)) ''html'') [], s1))))"

definition FluidContainer_hooks :: "(string \<Rightarrow> jsval option) \<Rightarrow> hooks" where
  "FluidContainer_hooks json_parse =
     \<lparr>targetWillMount = FluidContainer_targetWillMount,
      render = FluidContainer_render json_parse,
      targetDidMount = FluidContainer_targetDidMount,
      targetDidUpdate = (\<lambda>this_setState s. Normal s)\<rparr>"

section \<open>Observing a call\<close>

definition error_of :: "'s outcome \<Rightarrow> error option" where
  "error_of r = (case r of Normal s \<Rightarrow> None | Thrown e s \<Rightarrow> Some e)"

text \<open>A component that has just been constructed on the element \<open>c\<close> of the document \<open>d\<close>.\<close>

definition fresh :: "target \<Rightarrow> document \<Rightarrow> sys" where
  "fresh t d = \<lparr>self = t, doc = d, trace = []\<rparr>"

definition is_lower_alnum :: "char \<Rightarrow> bool" where
  "is_lower_alnum c = (c \<in> set ''0123456789abcdefghijklmnopqrstuvwxyz'')"

text \<open>
  \<open>hooks_keep_hash h\<close>: no hook of the class assigns \<open>this.hash\<close>, given that the
  \<open>setState\<close> it may call does not.
\<close>

definition hooks_keep_hash :: "hooks \<Rightarrow> bool" where
  "hooks_keep_hash h =
     (\<forall>f s. (\<forall>v s'. hash (self (state_of (f v s'))) = hash (self s')) \<longrightarrow>
        hash (self (state_of (targetWillMount h f s))) = hash (self s)
        \<and> hash (self (snd (render h s))) = hash (self s)
        \<and> hash (self (state_of (targetDidMount h f s))) = hash (self s)
        \<and> hash (self (state_of (targetDidUpdate h f s))) = hash (self s))"

section \<open>Properties of the escaping functions\<close>

text \<open>
  \<open>outside_tags t s\<close>: in the input \<open>t @ s\<close>, no match of the tag pattern starts
  inside the prefix \<open>t\<close>.
\<close>

definition outside_tags :: "string \<Rightarrow> string \<Rightarrow> bool" where
  "outside_tags t s = list_all (\<lambda>i. tag_match (drop i (t @ s)) = None) [0..<length t]"

lemma outside_tags_Nil: "outside_tags [] s"
  by (simp add: outside_tags_def)

lemma outside_tags_Cons:
  "outside_tags (c # t) s \<longleftrightarrow> tag_match (c # t @ s) = None \<and> outside_tags t s"
proof -
  let ?P = "\<lambda>u. tag_match u = None"
  have "(\<forall>i<Suc (length t). ?P (drop i (c # (t @ s))))
          \<longleftrightarrow> ?P (c # (t @ s)) \<and> (\<forall>i<length t. ?P (drop i (t @ s)))"
    (is "?L \<longleftrightarrow> ?R")
  proof
    assume l: ?L
    then have "?P (drop 0 (c # (t @ s)))" by blast
    moreover have "\<forall>i<length t. ?P (drop i (t @ s))"
    proof (intro allI impI)
      fix i assume "i < length t"
      then have "Suc i < Suc (length t)" by simp
      with l have "?P (drop (Suc i) (c # (t @ s)))" by blast
      then show "?P (drop i (t @ s))" by (simp del: drop_append)
    qed
    ultimately show ?R by simp
  next
    assume r: ?R
    show ?L
    proof (intro allI impI)
      fix i assume i: "i < Suc (length t)"
      show "?P (drop i (c # (t @ s)))"
      proof (cases i)
        case 0
        with r show ?thesis by simp
      next
        case (Suc j)
        with i have "j < length t" by simp
        with r have "?P (drop j (t @ s))" by blast
        with Suc show ?thesis by (simp del: drop_append)
      qed
    qed
  qed
  moreover have "outside_tags u s = (\<forall>i<length u. ?P (drop i (u @ s)))" for u
    by (auto simp add: outside_tags_def list_all_iff simp del: drop_append)
  ultimately show ?thesis
    by (simp only: length_Cons append_Cons)
qed

lemma escape_tags_outside:
  "outside_tags t s \<Longrightarrow>
   escape_tags (t @ s) = (case escape_tags s of Inl e \<Rightarrow> Inl e | Inr out \<Rightarrow> Inr (t @ out))"
  by (induction t) (auto simp: outside_tags_Cons split: sum.splits)

lemma no_lt_outside_tags: "CHR ''<'' \<notin> set t \<Longrightarrow> outside_tags t s"
  by (induction t) (auto simp: outside_tags_Nil outside_tags_Cons tag_match_def)

text \<open>
  C7 (the allow-list part fails on the code). The claim says that tag-permissive
  escaping keeps every tag of the allow-list intact. The allow-list names \<open>h1\<close> to
  \<open>h6\<close>, but the tag pattern captures letters only, so the name looked up for
  \<open><h1>\<close> is \<open>h\<close>, which is not listed: the heading is escaped like a disallowed tag.
\<close>

theorem escapeHTML_escapes_listed_heading:
  "escapeHTML (Own (JStr ''<h1>hi</h1>'')) True = Inr ''&lt;h1&gt;hi&lt;/h1&gt;''"
  by code_simp

text \<open>The two examples the claim C7 gives do hold on the code.\<close>

lemma escapeHTML_full_example:
  "escapeHTML (Own (JStr ''<b>hi</b>'')) False = Inr ''&lt;b&gt;hi&lt;/b&gt;''"
  by code_simp

lemma escapeHTML_tags_example:
  "escapeHTML (Own (JStr ''<b>hi</b><script>x</script>'')) True
     = Inr ''<b>hi</b>&lt;script&gt;x&lt;/script&gt;''"
  by code_simp

lemma escapeHTML_attributes_example:
  \<open>escapeHTML (Own (JStr ''<a href="x&y" class="q" title="t">hi</a>'')) True
     = Inr ''<a href="x&amp;y" title="t">hi</a>''\<close>
  by code_simp

text \<open>
  A tag named like a member of \<open>Object.prototype\<close> passes the allow-list test, and its
  first attribute makes the callback throw.
\<close>

lemma escapeHTML_inherited_tag_name:
  \<open>escapeHTML (Own (JStr ''<constructor>'')) True = Inr ''<constructor>''\<close>
  \<open>escapeHTML (Own (JStr ''<constructor a="b">'')) True = Inl TypeError\<close>
  by code_simp+

lemma escapeHTML_number_example: "escapeHTML (Own (JNum (Dec 42 0))) False = Inr ''42''"
  by code_simp

lemma escapeHTML_not_a_string:
  "escapeHTML (Own JUndefined) a = Inr []" "escapeHTML (Own JNull) a = Inr []"
  "escapeHTML (Own (JBool b)) a = Inr []" "escapeHTML (Own (JArr xs)) a = Inr []"
  "escapeHTML (Own (JObj kvs)) a = Inr []" "escapeHTML Inherited a = Inr []"
  "escapeHTML Absent a = Inr []"
  by (simp_all add: escapeHTML_def)

text \<open>
  C10. With \<open>allowTags\<close> true, a stretch of input in which no match of the tag pattern
  starts is copied to the output unchanged, whatever it contains (\<open>&\<close>, quotes, a
  \<open><\<close> that opens no tag), and the rest of the input is escaped on its own. Where a
  match of the tag pattern starts, the matched tag alone is rewritten and the input
  after it is again escaped on its own. So the output differs from the input only
  inside matched tags.
\<close>

theorem escapeHTML_allowTags_copies_text:
  assumes "outside_tags t s"
  shows "escapeHTML (Own (JStr (t @ s))) True =
           (case escapeHTML (Own (JStr s)) True of Inl e \<Rightarrow> Inl e | Inr out \<Rightarrow> Inr (t @ out))
         \<and> (\<forall>closing tagName attrs rest.
               tag_match s = Some (closing, tagName, attrs, rest) \<longrightarrow>
               escapeHTML (Own (JStr s)) True =
                 (case rewrite_tag closing tagName attrs of
                    Inl e \<Rightarrow> Inl e
                  | Inr rewritten \<Rightarrow>
                      (case escapeHTML (Own (JStr rest)) True of
                         Inl e \<Rightarrow> Inl e
                       | Inr out \<Rightarrow> Inr (rewritten @ out))))"
proof -
  have a: "escapeHTML (Own (JStr (t @ s))) True =
             (case escapeHTML (Own (JStr s)) True of Inl e \<Rightarrow> Inl e | Inr out \<Rightarrow> Inr (t @ out))"
    using escape_tags_outside [OF assms] by (simp add: escapeHTML_def)
  have b: "escapeHTML (Own (JStr s)) True =
             (case rewrite_tag closing tagName attrs of
                Inl e \<Rightarrow> Inl e
              | Inr rewritten \<Rightarrow>
                  (case escapeHTML (Own (JStr rest)) True of
                     Inl e \<Rightarrow> Inl e
                   | Inr out \<Rightarrow> Inr (rewritten @ out)))"
    if m: "tag_match s = Some (closing, tagName, attrs, rest)" for closing tagName attrs rest
  proof (cases s)
    case Nil
    with m show ?thesis by (simp add: tag_match_def)
  next
    case (Cons c cs)
    with m show ?thesis by (simp add: escapeHTML_def split: sum.splits)
  qed
  from a b show ?thesis by blast
qed

theorem escapeHTML_allowTags_copies_text_witness:
  \<open>outside_tags ''Q & A: "a < b", it's > '' ''<script>x</script> & "y"''
   \<and> tag_match ''<script>x</script> & "y"'' = Some (False, ''script'', [], ''x</script> & "y"'')
   \<and> escapeHTML (Own (JStr (''Q & A: "a < b", it's > '' @ ''<script>x</script> & "y"''))) True
       = Inr (''Q & A: "a < b", it's > '' @ ''&lt;script&gt;x&lt;/script&gt; & "y"'')
   \<and> escapeHTML (Own (JStr ''<script>x</script> & "y"'')) True
       = Inr (''&lt;script&gt;'' @ ''x&lt;/script&gt; & "y"'')\<close>
proof -
  have h: \<open>outside_tags ''Q & A: "a < b", it's > '' ''<script>x</script> & "y"''\<close>
    by code_simp
  have m: \<open>tag_match ''<script>x</script> & "y"''
             = Some (False, ''script'', [], ''x</script> & "y"'')\<close>
    by code_simp
  have r: "rewrite_tag False ''script'' [] = Inr ''&lt;script&gt;''"
    by code_simp
  have e: \<open>escapeHTML (Own (JStr ''x</script> & "y"'')) True = Inr ''x&lt;/script&gt; & "y"''\<close>
    by code_simp
  note t = escapeHTML_allowTags_copies_text [OF h]
  from t have s: \<open>escapeHTML (Own (JStr ''<script>x</script> & "y"'')) True
                    = Inr (''&lt;script&gt;'' @ ''x&lt;/script&gt; & "y"'')\<close>
    using m by (simp only: r e sum.case)
  from t have \<open>escapeHTML (Own (JStr (''Q & A: "a < b", it's > '' @ ''<script>x</script> & "y"''))) True
       = Inr (''Q & A: "a < b", it's > '' @ ''&lt;script&gt;x&lt;/script&gt; & "y"'')\<close>
    by (simp only: s sum.case) simp
  with h m s show ?thesis by (simp only: simp_thms)
qed

text \<open>
  C6 (fails on the code for inherited names). The claim says that a token whose
  identifier is not a key of the placeholder map stays in place. The lookup
  \<open>placeholders[key]\<close> also finds the members every object inherits, so with the empty
  map \<open>{}\<close> the token \<open>{{constructor}}\<close> is defined, is not a string, and is replaced
  by the empty string.
\<close>

theorem parseHTML_inherited_name_replaced:
  "parseHTML (JStr ''<p>{{constructor}}</p>'') [] = Inr ''<p></p>''"
  by code_simp

text \<open>The example the claim C6 gives does hold on the code.\<close>

lemma parseHTML_example:
  "parseHTML (JStr ''{{x}} and {{y}}'') [(''x'', JStr ''A'')] = Inr ''A and {{y}}''"
  by code_simp

section \<open>Properties of Target.dataToObject\<close>

text \<open>
  C8 (fails on the code for empty and blank strings). The claim says that a string which
  is not \<open>true\<close> or \<open>false\<close>, not fully numeric and not wrapped in braces is kept as it
  is. The numeric test of the code is \<open>!isNaN(value)\<close>, and the empty string converts
  to the number 0, so an empty value (as an attribute \<open>data-a=""\<close> gives) comes out as
  the number 0 instead of the empty string.
\<close>

theorem dataToObject_empty_string_becomes_zero:
  "dataToObject json_parse (JObj [(''a'', JStr '''')]) = Inr [(''a'', JNum (Dec 0 0))]"
  by (simp add: dataToObject_def truthy_def object_entries_def coerce_def to_number_def
      StringToNumber_def trim_def obj_set_def obj_define_def is_array_index_def is_digit_def)

lemma dataToObject_blank_string_becomes_zero:
  "dataToObject json_parse (JObj [(''a'', JStr ''  '')]) = Inr [(''a'', JNum (Dec 0 0))]"
  by (simp add: dataToObject_def truthy_def object_entries_def coerce_def to_number_def
      StringToNumber_def trim_def obj_set_def obj_define_def is_array_index_def is_digit_def is_space_def)

text \<open>The example the claim C8 gives does hold, for a host that parses the JSON text.\<close>

lemma dataToObject_example:
  assumes \<open>json_parse ''{"x":1}'' = Some (JObj [(''x'', JNum (Dec 1 0))])\<close>
  shows \<open>dataToObject json_parse
           (JObj [(''a'', JStr ''true''), (''b'', JStr ''42''), (''c'', JStr ''{"x":1}''),
                  (''d'', JStr ''hello'')])
         = Inr [(''a'', JBool True), (''b'', JNum (Dec 42 0)),
                (''c'', JObj [(''x'', JNum (Dec 1 0))]), (''d'', JStr ''hello'')]\<close>
proof -
  have n: \<open>StringToNumber ''true'' = NaN\<close> \<open>StringToNumber ''42'' = Dec 42 0\<close>
    \<open>StringToNumber ''{"x":1}'' = NaN\<close> \<open>StringToNumber ''hello'' = NaN\<close>
    by code_simp+
  have k: "\<not> is_array_index ''a''" "\<not> is_array_index ''b''" "\<not> is_array_index ''c''"
    "\<not> is_array_index ''d''"
    by code_simp+
  show ?thesis
    by (simp add: dataToObject_def truthy_def object_entries_def coerce_def to_number_def
        obj_set_def obj_define_def n k assms)
qed

section \<open>Properties of StyleManager\<close>

lemma map_fst_overwrite:
  "map fst (map (\<lambda>(k', v'). if k' = k then (k', v) else (k', v')) m) = map fst m"
  by (induction m) auto

lemma map_has_map_set: "map_has (map_set m k v) k"
proof (cases "map_has m k")
  case True
  then have "k \<in> set (map fst m)"
    by (simp only: map_has_def)
  then have "k \<in> set (map fst (map (\<lambda>(k', v'). if k' = k then (k', v) else (k', v')) m))"
    by (simp only: map_fst_overwrite)
  with True show ?thesis
    by (simp only: map_has_def map_set_def if_True)
next
  case False
  then show ?thesis
    by (simp add: map_has_def map_set_def)
qed

lemma find_append_aux:
  "find P (xs @ ys) = (case find P xs of Some x \<Rightarrow> Some x | None \<Rightarrow> find P ys)"
  by (induction xs) auto

lemma isStyleLoaded_registered: "map_has (styles sm) key \<Longrightarrow> isStyleLoaded key (sm, d)"
  by (simp add: isStyleLoaded_def)

text \<open>
  The part of C4 that holds: once \<open>addStyle\<close> has run for a key on a manager, whether it
  returned or threw, a further \<open>addStyle\<close> for that key on the same manager changes
  neither the registry nor the document, whatever its other arguments.
\<close>

lemma addStyle_again_is_noop:
  "addStyle key css' hsh' scoped' (state_of (addStyle key css hsh scoped st))
     = Normal (state_of (addStyle key css hsh scoped st))"
proof (cases "isStyleLoaded key st")
  case True
  then show ?thesis by (simp add: addStyle_def state_of_def)
next
  case False
  obtain sm d where st: "st = (sm, d)" by (cases st)
  have "isStyleLoaded key (state_of (addStyle key css hsh scoped st))"
    using False
    by (auto simp: addStyle_def state_of_def Let_def st isStyleLoaded_def map_has_map_set
        split: option.splits)
  then show ?thesis by (simp add: addStyle_def)
qed

text \<open>
  A document whose head holds one style node, tagged \<open>card-ab12cd34\<close> as \<open>addStyle\<close>
  tags the node of key \<open>card\<close> and hash \<open>ab12cd34\<close>; no manager has it registered.
\<close>

definition stale_document :: document where
  "stale_document =
     empty_document
       \<lparr>head := [\<lparr>node_id = 0, tag = ''style'', data_style_key = Some ''card-ab12cd34'',
                   style_text = [], rel = [], href = [], crossorigin = False\<rparr>],
        next_id := 1\<rparr>"

text \<open>
  C4 (the part about a node already in the head fails on the code). The claim says
  that \<open>addStyle\<close> is a no-op when a style node whose \<open>data-style-key\<close> equals the
  derived key \<open>key + '-' + hash\<close> is already in the head. \<open>isStyleLoaded\<close> queries the
  head for the key itself, never for the derived key, so a fresh manager does not see
  the node and appends a second one with the same derived key.
\<close>

theorem addStyle_misses_node_in_head:
  "map data_style_key
     (head (snd (state_of
        (addStyle ''card'' (JObj []) ''ab12cd34'' False (new_style_manager, stale_document)))))
     = [Some ''card-ab12cd34'', Some ''card-ab12cd34'']"
  by (simp add: addStyle_def isStyleLoaded_def query_selector_def stale_document_def
      new_style_manager_def empty_document_def map_has_def map_set_def object_entries_def
      set_text_def state_of_def Let_def)

text \<open>
  What \<open>removeStyle\<close> does after \<open>addStyle\<close> has created a node: nothing. The node is
  tagged with the derived key, which is longer than the key that \<open>removeStyle\<close> looks for.
\<close>

lemma removeStyle_after_addStyle_is_noop:
  assumes "\<not> isStyleLoaded key st"
  shows "removeStyle key (state_of (addStyle key css hsh scoped st))
           = state_of (addStyle key css hsh scoped st)"
proof -
  obtain sm d where st: "st = (sm, d)" by (cases st)
  from assms have q: "query_selector ''style'' key d = None"
    by (simp add: isStyleLoaded_def st)
  have ne: "key @ ''-'' @ hsh \<noteq> key"
  proof
    assume "key @ ''-'' @ hsh = key"
    then have "length (key @ ''-'' @ hsh) = length key" by simp
    then show False by simp
  qed
  have "query_selector ''style'' key (snd (state_of (addStyle key css hsh scoped st))) = None"
    using assms q ne
    by (auto simp: addStyle_def state_of_def Let_def st query_selector_def set_text_def
        find_append_aux find_None_iff split: option.splits)
  then show ?thesis by (simp add: removeStyle_def)
qed

text \<open>
  C5 (fails on the code). The claim says that after \<open>addStyle(key, css, hash, scoped)\<close>
  has created and registered a style node, \<open>removeStyle(key)\<close> removes that node from the
  head and deletes the key from the registry, and that \<open>removeAllStyles()\<close> does so for
  every registered key. \<open>removeStyle\<close> looks for a node whose \<open>data-style-key\<close> is the
  key, but the node was tagged \<open>key + '-' + hash\<close>: nothing is found, nothing is
  removed, and the key stays registered.
\<close>

theorem removeStyle_leaves_added_style:
  "(let st = state_of (addStyle ''card'' (JObj [(''.card'', JStr ''color: red'')])
                         ''ab12cd34'' False (new_style_manager, empty_document))
    in styles (fst st) = [(''card'', 0)]
       \<and> map data_style_key (head (snd st)) = [Some ''card-ab12cd34'']
       \<and> fst (removeStyle ''card'' st) = fst st
       \<and> head (snd (removeStyle ''card'' st)) = head (snd st)
       \<and> fst (removeAllStyles st) = fst st
       \<and> head (snd (removeAllStyles st)) = head (snd st))"
  by code_simp

section \<open>Properties of the lifecycle\<close>

lemma destroy_releases_container: "container (self (state_of (destroy s))) = None"
  by (simp add: destroy_def unmount_def seq_def state_of_def Let_def split: option.splits)

lemma update_without_container: "container (self s) = None \<Longrightarrow> update n h s = Normal s"
  by (cases n) (simp_all add: update_body_def)

lemma unmount_without_container:
  "container (self s) = None \<Longrightarrow> error_of (unmount s) = Some TypeError"
  by (simp add: unmount_def error_of_def Let_def)

text \<open>
  C2 (fails on the code for \<open>unmount\<close> and a second \<open>destroy\<close>). The claim says that every
  lifecycle operation on a destroyed component is a silent no-op. \<open>update\<close> guards on
  the container, but \<open>unmount\<close> assigns to \<open>this.container.innerHTML\<close> without a guard:
  on a destroyed component the container is null and the assignment is a TypeError,
  in \<open>unmount\<close> and in \<open>destroy\<close>, which calls it.
\<close>

theorem unmount_after_destroy_throws:
  "error_of (unmount (state_of (destroy s))) = Some TypeError
   \<and> error_of (destroy (state_of (destroy s))) = Some TypeError"
proof -
  have c: "container (self (state_of (destroy s))) = None"
    by (rule destroy_releases_container)
  have u: "error_of (unmount (state_of (destroy s))) = Some TypeError"
    using c by (rule unmount_without_container)
  then have "error_of (destroy (state_of (destroy s))) = Some TypeError"
    by (cases "unmount (state_of (destroy s))") (simp_all add: destroy_def seq_def error_of_def)
  with u show ?thesis by simp
qed

lemma destroy_returned_releases_container:
  assumes "error_of (destroy s) = None"
  shows "container (self (state_of (destroy s))) = None"
proof (cases "unmount s")
  case (Normal s1)
  then show ?thesis by (simp add: destroy_def seq_def state_of_def)
next
  case (Thrown e s1)
  with assms show ?thesis by (simp add: destroy_def seq_def error_of_def)
qed

lemma setState_without_container:
  assumes "container (self s) = None"
  shows "setState n h newState s = Normal (merge_state newState s)"
proof -
  from assms have "container (self (merge_state newState s)) = None"
    by (simp add: merge_state_def)
  then show ?thesis by (simp add: setState_def update_without_container)
qed

text \<open>
  C3. \<open>destroy()\<close> assigns null to \<open>this.container\<close> as its last statement, so a
  \<open>destroy()\<close> that has returned leaves the component without a container (one that
  threw, as in C2, has not reached that assignment). After such a \<open>destroy()\<close>,
  \<open>setState(newState)\<close> returns normally for every class of component and every
  argument; the state merge is all it does: it renders nothing, calls no hook, and
  leaves the document as it is.
\<close>

theorem setState_after_destroy_only_merges:
  assumes "error_of (destroy s) = None"
  shows "container (self (state_of (destroy s))) = None
     \<and> setState n h newState (state_of (destroy s))
         = Normal (merge_state newState (state_of (destroy s)))
     \<and> doc (merge_state newState (state_of (destroy s))) = doc (state_of (destroy s))
     \<and> trace (merge_state newState (state_of (destroy s))) = trace (state_of (destroy s))"
proof -
  have c: "container (self (state_of (destroy s))) = None"
    using assms by (rule destroy_returned_releases_container)
  have m: "setState n h newState (state_of (destroy s))
             = Normal (merge_state newState (state_of (destroy s)))"
    using c by (rule setState_without_container)
  have d: "doc (merge_state newState (state_of (destroy s))) = doc (state_of (destroy s))"
    by (simp add: merge_state_def)
  have t: "trace (merge_state newState (state_of (destroy s))) = trace (state_of (destroy s))"
    by (simp add: merge_state_def)
  from c m d t show ?thesis by (intro conjI)
qed

text \<open>
  A \<open>FluidContainer\<close> with the hash \<open>a234zkab\<close> on the element 0 of an empty document,
  and the same component after its first \<open>update()\<close>.
\<close>

definition sample_component :: sys where
  "sample_component =
     fresh (new_FluidContainer [(''html'', JStr ''<p>hi</p>'')] 0 [10, 2, 3, 4, 5] [35, 20, 10, 11]
              empty_document)
       empty_document"

definition mounted_component :: sys where
  "mounted_component = state_of (update 1 (FluidContainer_hooks (\<lambda>x. None)) sample_component)"

lemma mounted_component_rendered:
  "container (self mounted_component) = Some 0
   \<and> isMounted (self mounted_component)
   \<and> inner (elements (doc mounted_component) 0) = InnerHTML ''<p>hi</p>''"
  by code_simp

theorem setState_after_destroy_only_merges_witness:
  "error_of (destroy mounted_component) = None
   \<and> container (self (state_of (destroy mounted_component))) = None
   \<and> error_of (setState 1 (FluidContainer_hooks (\<lambda>x. None)) (JObj [(''loading'', JBool True)])
                 (state_of (destroy mounted_component))) = None
   \<and> field (state (self (state_of
              (setState 1 (FluidContainer_hooks (\<lambda>x. None)) (JObj [(''loading'', JBool True)])
                 (state_of (destroy mounted_component)))))) ''loading'' = JBool True
   \<and> inner (elements (doc (state_of
              (setState 1 (FluidContainer_hooks (\<lambda>x. None)) (JObj [(''loading'', JBool True)])
                 (state_of (destroy mounted_component))))) 0) = InnerHTML []
   \<and> trace (state_of
              (setState 1 (FluidContainer_hooks (\<lambda>x. None)) (JObj [(''loading'', JBool True)])
                 (state_of (destroy mounted_component))))
       = trace mounted_component"
proof -
  have h: "error_of (destroy mounted_component) = None"
    by code_simp
  have l: "field (state (self (merge_state (JObj [(''loading'', JBool True)])
                                 (state_of (destroy mounted_component))))) ''loading'' = JBool True"
    by code_simp
  have i: "inner (elements (doc (state_of (destroy mounted_component))) 0) = InnerHTML []"
    by code_simp
  have r: "trace (state_of (destroy mounted_component)) = trace mounted_component"
    by code_simp
  note t = setState_after_destroy_only_merges [OF h, of 1 "FluidContainer_hooks (\<lambda>x. None)"
      "JObj [(''loading'', JBool True)]"]
  from t h l i r show ?thesis
    by (simp add: state_of_def error_of_def)
qed

text \<open>
  For \<open>Target\<close> itself, whose hooks only log, the order C1 describes holds: the first
  \<open>update()\<close> is will-mount, write, did-mount, did-update and sets \<open>isMounted\<close>; a later
  one is write, did-update.
\<close>

lemma Target_first_update:
  assumes "container (self s) = Some c" and "\<not> isMounted (self s)"
  shows "update n Target_hooks s
           = Normal ((set_innerHTML c [] s)
                       \<lparr>self := (self s)\<lparr>isMounted := True\<rparr>,
                        trace := trace s @ [WillMount, DomWrite [], DidMount, DidUpdate]\<rparr>)"
  using assms
  by (cases n)
     (simp_all add: update_body_def Target_hooks_def seq_def log_call_def set_innerHTML_def)

lemma Target_later_update:
  assumes "container (self s) = Some c" and "isMounted (self s)"
  shows "update n Target_hooks s
           = Normal ((set_innerHTML c [] s)\<lparr>trace := trace s @ [DomWrite [], DidUpdate]\<rparr>)"
  using assms
  by (cases n)
     (simp_all add: update_body_def Target_hooks_def seq_def log_call_def set_innerHTML_def)

lemma parseHTML_loading_html: "parseHTML (JStr loading_html) [] = Inr loading_html"
  by code_simp

lemma parseHTML_plain_paragraph: "parseHTML (JStr ''<p>hi</p>'') [] = Inr ''<p>hi</p>''"
  by code_simp

text \<open>
  C1 (fails on the code for a subclass of the repository). The claim says that the first
  \<open>update()\<close> of every component calls \<open>targetWillMount\<close> once and \<open>targetDidMount\<close> once.
  \<open>update\<close> sets \<open>isMounted\<close> only after \<open>targetDidMount\<close> has returned, and
  \<open>FluidContainer.targetDidMount\<close> calls \<open>setState\<close> when there is no \<open>api\<close>; the nested
  \<open>update\<close> finds \<open>isMounted\<close> still false and runs both mount hooks again. The first
  \<open>update()\<close> of a \<open>FluidContainer\<close> with props \<open>{html: "<p>hi</p>"}\<close> makes these calls:
\<close>

theorem FluidContainer_first_update_mounts_twice:
  "(let r = update (Suc n) (FluidContainer_hooks json_parse)
              (fresh (new_FluidContainer [(''html'', JStr ''<p>hi</p>'')] c r1 r2 d) d)
    in error_of r = None
       \<and> trace (state_of r)
           = [WillMount, DomWrite loading_html, DidMount,
              WillMount, DomWrite ''<p>hi</p>'', DidMount, DidUpdate,
              DidUpdate])"
  by (cases n)
     (simp_all add: Let_def fresh_def new_FluidContainer_def new_Target_def update_body_def
        FluidContainer_hooks_def FluidContainer_targetWillMount_def
        FluidContainer_targetDidMount_def FluidContainer_render_def seq_def log_call_def
        set_innerHTML_def merge_state_def spread_def obj_define_def object_entries_def
        is_array_index_def is_digit_def field_def truthy_def state_of_def error_of_def
        parseHTML_loading_html parseHTML_plain_paragraph)

section \<open>The hash of a component\<close>

lemma digit_char_lower_alnum: "is_lower_alnum (digit_char d)"
proof -
  have "d mod 36 < length ''0123456789abcdefghijklmnopqrstuvwxyz''" by simp
  then have "''0123456789abcdefghijklmnopqrstuvwxyz'' ! (d mod 36)
               \<in> set ''0123456789abcdefghijklmnopqrstuvwxyz''"
    by (rule nth_mem)
  then show ?thesis by (simp only: is_lower_alnum_def digit_char_def)
qed

lemma substring_random: "substring 2 6 (random_toString36 ds) = map digit_char (take 4 ds)"
  by (simp add: substring_def random_toString36_def take_map)

lemma generateRandomHash_digits:
  "generateRandomHash r1 r2 = map digit_char (take 4 r1 @ take 4 r2)"
  by (simp add: generateRandomHash_def substring_random)

lemma hash_seq:
  assumes "hash (self (state_of r)) = x"
    and "\<And>s. hash (self s) = x \<Longrightarrow> hash (self (state_of (g s))) = x"
  shows "hash (self (state_of (seq r g))) = x"
  using assms by (cases r) (simp_all add: seq_def state_of_def)

lemma hash_with_styles: "hash (self (state_of (with_styles f s))) = hash (self s)"
  by (simp add: with_styles_def state_of_def split: outcome.splits)

lemma hash_inject_link: "hash (self (state_of (inject_link link s))) = hash (self s)"
proof (cases link)
  case (JStr x)
  then show ?thesis by (simp add: inject_link_def state_of_def)
qed (auto simp: inject_link_def state_of_def Let_def hash_with_styles [unfolded state_of_def]
       split: option.splits)

lemma hash_inject_links: "hash (self (state_of (inject_links links s))) = hash (self s)"
proof (induction links arbitrary: s)
  case Nil
  show ?case by (simp add: state_of_def)
next
  case (Cons link links)
  show ?case
    by (simp only: inject_links.simps) (rule hash_seq, rule hash_inject_link, simp add: Cons)
qed

lemma update_body_keeps_hash:
  assumes h: "hooks_keep_hash h"
    and f: "\<forall>v s'. hash (self (state_of (f v s'))) = hash (self s')"
  shows "hash (self (state_of (update_body h f s))) = hash (self s)"
proof -
  from h f have wm: "\<And>t. hash (self (state_of (targetWillMount h f t))) = hash (self t)"
    and rn: "\<And>t. hash (self (snd (render h t))) = hash (self t)"
    and dm: "\<And>t. hash (self (state_of (targetDidMount h f t))) = hash (self t)"
    and du: "\<And>t. hash (self (state_of (targetDidUpdate h f t))) = hash (self t)"
    unfolding hooks_keep_hash_def by blast+
  show ?thesis
  proof (cases "container (self s) = None")
    case True
    then show ?thesis by (simp add: update_body_def state_of_def)
  next
    case False
    have first: "hash (self (state_of (if \<not> isMounted (self s)
                    then targetWillMount h f (log_call WillMount s) else Normal s))) = hash (self s)"
      by (simp add: wm) (simp add: log_call_def state_of_def)
    have rest: "hash (self (state_of
                  (case render h s1 of
                     (Inl e, s2) \<Rightarrow> Thrown e s2
                   | (Inr html, s2) \<Rightarrow>
                       (case container (self s1) of
                          None \<Rightarrow> Thrown TypeError s2
                        | Some c \<Rightarrow>
                            seq (if \<not> isMounted (self s2)
                                 then seq (targetDidMount h f
                                             (log_call DidMount (log_call (DomWrite html) (set_innerHTML c html s2))))
                                        (\<lambda>s3. Normal (s3\<lparr>self := (self s3)\<lparr>isMounted := True\<rparr>\<rparr>))
                                 else Normal (log_call (DomWrite html) (set_innerHTML c html s2)))
                              (\<lambda>s4. targetDidUpdate h f (log_call DidUpdate s4)))))) = hash (self s)"
      if s1: "hash (self s1) = hash (self s)" for s1
    proof (cases "render h s1")
      case (Pair res s2)
      with rn [of s1] s1 have s2: "hash (self s2) = hash (self s)" by simp
      show ?thesis
      proof (cases res)
        case (Inl e)
        with Pair s2 show ?thesis by (simp add: state_of_def)
      next
        case (Inr html)
        show ?thesis
        proof (cases "container (self s1)")
          case None
          with Pair Inr s2 show ?thesis by (simp add: state_of_def)
        next
          case (Some c)
          have w: "hash (self (log_call ev (set_innerHTML c html s2))) = hash (self s)" for ev
            using s2 by (simp add: log_call_def set_innerHTML_def)
          have w2: "hash (self (log_call ev (log_call ev' (set_innerHTML c html s2)))) = hash (self s)"
            for ev ev'
            using s2 by (simp add: log_call_def set_innerHTML_def)
          have mount: "hash (self (state_of
                         (if \<not> isMounted (self s2)
                          then seq (targetDidMount h f
                                      (log_call DidMount (log_call (DomWrite html) (set_innerHTML c html s2))))
                                 (\<lambda>s3. Normal (s3\<lparr>self := (self s3)\<lparr>isMounted := True\<rparr>\<rparr>))
                          else Normal (log_call (DomWrite html) (set_innerHTML c html s2))))) = hash (self s)"
          proof (cases "isMounted (self s2)")
            case True
            then show ?thesis using w by (simp add: state_of_def)
          next
            case False
            have "hash (self (state_of
                    (seq (targetDidMount h f
                            (log_call DidMount (log_call (DomWrite html) (set_innerHTML c html s2))))
                       (\<lambda>s3. Normal (s3\<lparr>self := (self s3)\<lparr>isMounted := True\<rparr>\<rparr>))))) = hash (self s)"
            proof (rule hash_seq)
              show "hash (self (state_of
                      (targetDidMount h f
                         (log_call DidMount (log_call (DomWrite html) (set_innerHTML c html s2))))))
                    = hash (self s)"
                by (simp add: dm w2)
            next
              fix s3 :: sys
              assume "hash (self s3) = hash (self s)"
              then show "hash (self (state_of (Normal (s3\<lparr>self := (self s3)\<lparr>isMounted := True\<rparr>\<rparr>))))
                           = hash (self s)"
                by (simp add: state_of_def)
            qed
            with False show ?thesis by simp
          qed
          have "hash (self (state_of
                  (seq (if \<not> isMounted (self s2)
                        then seq (targetDidMount h f
                                    (log_call DidMount (log_call (DomWrite html) (set_innerHTML c html s2))))
                               (\<lambda>s3. Normal (s3\<lparr>self := (self s3)\<lparr>isMounted := True\<rparr>\<rparr>))
                        else Normal (log_call (DomWrite html) (set_innerHTML c html s2)))
                     (\<lambda>s4. targetDidUpdate h f (log_call DidUpdate s4))))) = hash (self s)"
            by (rule hash_seq, rule mount) (simp add: du log_call_def)
          with Pair Inr Some show ?thesis by simp
        qed
      qed
    qed
    have "hash (self (state_of (update_body h f s))) = hash (self s)"
      unfolding update_body_def using False
      by (simp only: if_False) (rule hash_seq, rule first, rule rest)
    then show ?thesis .
  qed
qed

lemma update_keeps_hash:
  assumes "hooks_keep_hash h"
  shows "hash (self (state_of (update n h s))) = hash (self s)"
proof (induction n arbitrary: s)
  case 0
  show ?case
    by (simp only: update.simps)
       (rule update_body_keeps_hash [OF assms], simp add: state_of_def merge_state_def)
next
  case (Suc n)
  show ?case
    by (simp only: update.simps)
       (rule update_body_keeps_hash [OF assms], simp add: Suc merge_state_def)
qed

lemma Target_hooks_keep_hash: "hooks_keep_hash Target_hooks"
  by (simp add: hooks_keep_hash_def Target_hooks_def state_of_def)

lemma FluidContainer_targetWillMount_keeps_hash:
  "hash (self (state_of (FluidContainer_targetWillMount f s))) = hash (self s)"
  unfolding FluidContainer_targetWillMount_def
proof (rule hash_seq)
  show "hash (self (state_of
          (if truthy (field (props (self s)) ''css'')
           then with_styles
                  (addStyle (the_styleId (styleId (self s))) (field (props (self s)) ''css'')
                     (hash (self s)) (truthy (field (props (self s)) ''scoped'')))
                  s
           else Normal s))) = hash (self s)"
    by (simp add: hash_with_styles) (simp add: state_of_def)
next
  fix s1 :: sys
  assume "hash (self s1) = hash (self s)"
  then show "hash (self (state_of
               (case field (props (self s1)) ''links'' of
                  JArr links \<Rightarrow> inject_links links s1
                | JStr x \<Rightarrow> if x \<noteq> [] then Thrown TypeError s1 else Normal s1
                | JObj kvs \<Rightarrow>
                    (case positive (field kvs ''length'') of
                       None \<Rightarrow> Thrown TypeError s1
                     | Some b \<Rightarrow> if b then Thrown TypeError s1 else Normal s1)
                | other \<Rightarrow> Normal s1))) = hash (self s)"
    by (cases "field (props (self s1)) ''links''")
       (auto simp: hash_inject_links [unfolded state_of_def] state_of_def split: option.splits)
qed

lemma FluidContainer_render_keeps_hash:
  "hash (self (snd (FluidContainer_render json_parse s))) = hash (self s)"
  by (auto simp: FluidContainer_render_def setTitle_def Let_def
      split: option.splits sum.splits)

lemma FluidContainer_targetDidMount_keeps_hash:
  assumes "\<forall>v s'. hash (self (state_of (f v s'))) = hash (self s')"
  shows "hash (self (state_of (FluidContainer_targetDidMount f s))) = hash (self s)"
  unfolding FluidContainer_targetDidMount_def
  by (rule hash_seq) (simp_all add: state_of_def assms [unfolded state_of_def])

lemma FluidContainer_hooks_keep_hash: "hooks_keep_hash (FluidContainer_hooks json_parse)"
  by (simp add: hooks_keep_hash_def FluidContainer_hooks_def
      FluidContainer_targetWillMount_keeps_hash FluidContainer_render_keeps_hash
      FluidContainer_targetDidMount_keeps_hash)
     (simp add: state_of_def)

lemma unmount_keeps_hash: "hash (self (state_of (unmount s))) = hash (self s)"
  by (simp add: unmount_def state_of_def Let_def split: option.splits)

lemma destroy_keeps_hash: "hash (self (state_of (destroy s))) = hash (self s)"
  unfolding destroy_def
  by (rule hash_seq, rule unmount_keeps_hash) (simp add: state_of_def)

lemma initialize_keeps_hash:
  "hash (self (state_of (initialize html_parse dev s))) = hash (self s)"
  by (simp add: initialize_def state_of_def Let_def split: option.splits)

lemma setState_keeps_hash:
  assumes "hooks_keep_hash h"
  shows "hash (self (state_of (setState n h v s))) = hash (self s)"
  using update_keeps_hash [OF assms, of n "merge_state v s"]
  by (simp add: setState_def merge_state_def)

text \<open>
  C9 (fails on the code: the hash can be shorter than 8 characters). The claim says
  that the hash of every component is a string of exactly 8 characters.
  \<open>generateRandomHash\<close> takes \<open>substring(2, 6)\<close> of each of two random numbers printed
  in base 36, four characters and four, and pads nothing. A random number whose
  fraction prints fewer than four digits gives fewer characters: \<open>Math.random()\<close>
  returning 0.5 twice, which prints as \<open>0.i\<close>, gives the hash \<open>ii\<close>.
\<close>

theorem hash_shorter_than_eight:
  "hash (new_Target ''Target'' [] 0 [18] [18] empty_document) = ''ii''
   \<and> length (hash (new_Target ''Target'' [] 0 [18] [18] empty_document)) \<noteq> 8"
  by (simp add: new_Target_def generateRandomHash_digits digit_char_def)

text \<open>\<open>Math.random()\<close> returning 0 twice, which prints as \<open>0\<close>, gives the empty hash.\<close>

lemma hash_empty_for_zero:
  "hash (new_Target ''Target'' [] 0 [] [] empty_document) = []"
  by (simp add: new_Target_def generateRandomHash_digits)

text \<open>
  What does hold of C9. The hash of a component is the value \<open>generateRandomHash\<close>
  returned in the constructor: at most 8 characters, exactly 8 when both random numbers
  print at least four digits, all of them digits or lowercase letters.
\<close>

lemma hash_of_new_component:
  "hash (new_Target name p c r1 r2 d) = generateRandomHash r1 r2"
  "hash (new_FluidContainer p c r1 r2 d) = generateRandomHash r1 r2"
  by (simp_all add: new_FluidContainer_def new_Target_def)

lemma hash_at_most_eight: "length (generateRandomHash r1 r2) \<le> 8"
  by (simp add: generateRandomHash_digits)

lemma hash_eight_of_four_digits:
  "4 \<le> length r1 \<Longrightarrow> 4 \<le> length r2 \<Longrightarrow> length (generateRandomHash r1 r2) = 8"
  by (simp add: generateRandomHash_digits)

lemma hash_lower_alnum: "list_all is_lower_alnum (generateRandomHash r1 r2)"
  by (auto simp: generateRandomHash_digits list_all_iff digit_char_lower_alnum)

text \<open>
  No operation changes the hash, for \<open>Target\<close> itself and for \<open>FluidContainer\<close>, whether
  the operation returns or throws.
\<close>

lemma Target_hash_is_fixed:
  "hash (self (state_of (update n Target_hooks s))) = hash (self s)"
  "hash (self (state_of (setState n Target_hooks v s))) = hash (self s)"
  "hash (self (state_of (unmount s))) = hash (self s)"
  "hash (self (state_of (destroy s))) = hash (self s)"
  "hash (self (state_of (initialize html_parse dev s))) = hash (self s)"
  by (rule update_keeps_hash [OF Target_hooks_keep_hash],
      rule setState_keeps_hash [OF Target_hooks_keep_hash],
      rule unmount_keeps_hash, rule destroy_keeps_hash, rule initialize_keeps_hash)

lemma FluidContainer_hash_is_fixed:
  "hash (self (state_of (update n (FluidContainer_hooks json_parse) s))) = hash (self s)"
  "hash (self (state_of (setState n (FluidContainer_hooks json_parse) v s))) = hash (self s)"
  by (rule update_keeps_hash [OF FluidContainer_hooks_keep_hash],
      rule setState_keeps_hash [OF FluidContainer_hooks_keep_hash])

lemma sample_component_hash:
  "hash (self sample_component) = ''a234zkab''
   \<and> hash (self mounted_component) = ''a234zkab''
   \<and> hash (self (state_of (destroy mounted_component))) = ''a234zkab''"
  by code_simp

section \<open>What does hold of the claims that fail\<close>

text \<open>
  The full escape leaves none of \<open>< > " '\<close> in its output, and an ampersand only as
  the start of an entity it wrote (C7, first part).
\<close>

lemma entity_no_specials:
  "CHR ''<'' \<notin> set (entity c)" "CHR ''>'' \<notin> set (entity c)"
  "CHR 0x22 \<notin> set (entity c)" "CHR 0x27 \<notin> set (entity c)"
  by (simp_all add: entity_def)

lemma escape_all_no_specials:
  "CHR ''<'' \<notin> set (escape_all s)" "CHR ''>'' \<notin> set (escape_all s)"
  "CHR 0x22 \<notin> set (escape_all s)" "CHR 0x27 \<notin> set (escape_all s)"
  by (simp_all add: escape_all_def entity_no_specials)

lemma escapeHTML_full_is_escape_all: "escapeHTML (Own (JStr s)) False = Inr (escape_all s)"
  by (simp add: escapeHTML_def)

text \<open>
  \<open>parseHTML\<close> on one token (C6): text without an opening brace is copied, a token
  \<open>{{key}}\<close> is replaced by what the callback returns for \<open>key\<close>, and the rest is parsed
  on its own. For a key the map has (with a value other than undefined) that is the
  escaped value, tag-permissive for \<open>content\<close>; for a key that neither the map nor
  \<open>Object.prototype\<close> has, it is the token itself.
\<close>

lemma token_match_no_brace: "c \<noteq> CHR ''{'' \<Longrightarrow> token_match (c # cs) = None"
  by (simp add: token_match_def)

lemma replace_tokens_text:
  "CHR ''{'' \<notin> set t \<Longrightarrow>
   replace_tokens p (t @ s)
     = (case replace_tokens p s of Inl e \<Rightarrow> Inl e | Inr out \<Rightarrow> Inr (t @ out))"
  by (induction t) (auto simp: token_match_no_brace split: sum.splits)

lemma token_match_token:
  assumes "key \<noteq> []" and "list_all is_word key"
  shows "token_match (''{{'' @ key @ ''}}'' @ rest) = Some (key, rest)"
proof -
  have w: "\<not> is_word (CHR ''}'')" by (simp add: is_word_def)
  have "takeWhile is_word (key @ ''}}'' @ rest) = key"
    using assms(2) w by (induction key) auto
  moreover have "dropWhile is_word (key @ ''}}'' @ rest) = ''}}'' @ rest"
    using assms(2) w by (induction key) auto
  ultimately show ?thesis
    using assms(1) by (simp add: token_match_def)
qed

lemma replace_tokens_token:
  assumes "key \<noteq> []" and "list_all is_word key"
  shows "replace_tokens p (''{{'' @ key @ ''}}'' @ rest)
           = (case substitute p key of
                Inl e \<Rightarrow> Inl e
              | Inr v \<Rightarrow> (case replace_tokens p rest of Inl e \<Rightarrow> Inl e | Inr out \<Rightarrow> Inr (v @ out)))"
proof -
  have "token_match (CHR ''{'' # CHR ''{'' # key @ ''}}'' @ rest) = Some (key, rest)"
    using token_match_token [OF assms, of rest] by simp
  then show ?thesis by simp
qed

lemma substitute_own:
  "map_of p key = Some v \<Longrightarrow> v \<noteq> JUndefined \<Longrightarrow>
   substitute p key = escapeHTML (Own v) (key = ''content'')"
  by (auto simp: substitute_def js_get_def)

lemma substitute_absent:
  "map_of p key = None \<Longrightarrow> key \<notin> set object_prototype_keys \<Longrightarrow>
   substitute p key = Inr (''{{'' @ key @ ''}}'')"
  by (simp add: substitute_def js_get_def)

lemma substitute_inherited:
  "map_of p key = None \<Longrightarrow> key \<in> set object_prototype_keys \<Longrightarrow> substitute p key = Inr []"
  by (auto simp: substitute_def js_get_def escapeHTML_def)

text \<open>
  \<open>dataToObject\<close> on one string (C8): \<open>true\<close> and \<open>false\<close> become booleans, a string
  that converts to a number becomes that number, a string in braces becomes what
  \<open>JSON.parse\<close> returns or stays as it is when that throws, any other string stays as it
  is. On a map whose values are all strings it never throws.
\<close>

lemma coerce_string:
  "coerce json_parse (JStr s) =
     Some (if s = ''true'' then JBool True
           else if s = ''false'' then JBool False
           else if StringToNumber s \<noteq> NaN then JNum (StringToNumber s)
           else if s \<noteq> [] \<and> hd s = CHR ''{'' \<and> last s = CHR ''}''
             then (case json_parse s of Some parsed \<Rightarrow> parsed | None \<Rightarrow> JStr s)
           else JStr s)"
  by (simp add: coerce_def to_number_def split: option.splits)

lemma reduce_entries_strings_total:
  "list_all (\<lambda>kv. \<exists>s. snd kv = JStr s) entries \<Longrightarrow>
   \<exists>obj. reduce_entries json_parse acc entries = Inr obj"
proof (induction entries arbitrary: acc)
  case Nil
  show ?case by simp
next
  case (Cons kv entries)
  obtain k v where kv: "kv = (k, v)" by (cases kv)
  from Cons.prems kv obtain s where v: "v = JStr s" by auto
  from Cons.prems have rest: "list_all (\<lambda>kv. \<exists>s. snd kv = JStr s) entries" by simp
  obtain v' where c: "coerce json_parse (JStr s) = Some v'"
    using coerce_string [of json_parse s] by simp
  show ?case
    using Cons.IH [OF rest, of "obj_set acc k v'"] by (simp add: kv v c)
qed

lemma dataToObject_strings_total:
  "list_all (\<lambda>kv. \<exists>s. snd kv = JStr s) entries \<Longrightarrow>
   \<exists>obj. dataToObject json_parse (JObj entries) = Inr obj"
  using reduce_entries_strings_total [of entries json_parse "[]"]
  by (simp add: dataToObject_def truthy_def object_entries_def)

text \<open>
  \<open>removeStyle\<close> for a key that no style node of the head carries changes nothing
  (C5, last part).
\<close>

lemma removeStyle_unknown_key:
  "query_selector ''style'' key (snd st) = None \<Longrightarrow> removeStyle key st = st"
  by (simp add: removeStyle_def)

end
